theory Spec2Isabelle
  imports Complex_Main
begin

section \<open>Python values shared by both modules\<close>

text \<open>
  Everything the two modules can raise. \<open>RaisedException\<close> stands for an instance of
  Python's \<open>Exception\<close> raised by a handler or a worker; \<open>RaisedBaseException\<close> for a
  \<open>BaseException\<close> that does not derive from \<open>Exception\<close> (\<open>KeyboardInterrupt\<close>,
  \<open>SystemExit\<close>). \<open>asyncio.CancelledError\<close> derives from \<open>BaseException\<close> only.
\<close>

datatype exn =
    ValueError string
  | KeyError string
  | AttributeError string
  | AssertionError string
  | RuntimeError string
  | CancelledError
  | RaisedException string
  | RaisedBaseException string

text \<open>What an \<open>except Exception:\<close> clause catches.\<close>

fun is_Exception :: "exn \<Rightarrow> bool" where
  "is_Exception CancelledError = False"
| "is_Exception (RaisedBaseException e) = False"
| "is_Exception _ = True"

section \<open>vllm/entrypoints/utils.py\<close>

subsection \<open>Application state, call arguments, responses\<close>

text \<open>
  \<open>request.app.state\<close> is an attribute bag shared by all requests of the application.
  Both attributes may be absent, which \<open>getattr(..., False)\<close> and \<open>hasattr\<close> probe;
  the counter is a Python integer, hence unbounded.
\<close>

record app_state =
  enable_server_load_tracking :: "bool option"
  server_load_metrics :: "int option"

text \<open>
  A positional or keyword argument of a route handler: \<open>None\<close>, a request (which
  gives access to the application state), or some other object (which has no
  \<open>app\<close> attribute).
\<close>

datatype ('q, 'v) arg = NoneArg | RequestArg 'q | OtherArg 'v

type_synonym ('q, 'v) kwargs = "string \<rightharpoonup> ('q, 'v) arg"

text \<open>\<open>BackgroundTask(func, *args, **kwargs)\<close> of starlette.\<close>

datatype ('f, 'a) background_task =
  BackgroundTask (task_func: 'f) (task_args: "'a list") (task_kwargs: "(string \<times> 'a) list")

text \<open>
  The \<open>background\<close> attribute of a response: \<open>None\<close>, a single \<open>BackgroundTask\<close>, or a
  \<open>BackgroundTasks\<close> collection (an ordered list of tasks).
\<close>

datatype ('f, 'a) background =
    NoBackground
  | SingleTask "('f, 'a) background_task"
  | BackgroundTasks "('f, 'a) background_task list"

text \<open>The functions a background task may run: the decrement hook, or one of the handler's own.\<close>

datatype 'f hook_func = DecrementServerLoad | HandlerHook 'f

text \<open>
  What a handler can return: a \<open>JSONResponse\<close> or a \<open>StreamingResponse\<close>, a response of
  another class (starlette's \<open>Response\<close>, \<open>PlainTextResponse\<close>, ...; every response
  carries a \<open>background\<close>), Python's \<open>None\<close>, or any other object.
\<close>

datatype ('b, 'f, 'a) response =
    JSONResponse 'b "('f, 'a) background"
  | StreamingResponse 'b "('f, 'a) background"
  | OtherResponse 'b "('f, 'a) background"
  | NoneValue
  | OtherValue 'b

text \<open>Line 123: \<open>isinstance(response, (JSONResponse, StreamingResponse))\<close>.\<close>

fun isinstance_JSON_or_Streaming :: "('b, 'f, 'a) response \<Rightarrow> bool" where
  "isinstance_JSON_or_Streaming (JSONResponse b bg) = True"
| "isinstance_JSON_or_Streaming (StreamingResponse b bg) = True"
| "isinstance_JSON_or_Streaming r = False"

text \<open>The finalize hooks of a background, in the order starlette runs them.\<close>

fun background_hooks :: "('f, 'a) background \<Rightarrow> ('f, 'a) background_task list" where
  "background_hooks NoBackground = []"
| "background_hooks (SingleTask t) = [t]"
| "background_hooks (BackgroundTasks ts) = ts"

fun response_hooks :: "('b, 'f, 'a) response \<Rightarrow> ('f, 'a) background_task list" where
  "response_hooks (JSONResponse b bg) = background_hooks bg"
| "response_hooks (StreamingResponse b bg) = background_hooks bg"
| "response_hooks (OtherResponse b bg) = background_hooks bg"
| "response_hooks NoneValue = []"
| "response_hooks (OtherValue b) = []"

text \<open>\<open>BackgroundTasks.add_task(func, *args, **kwargs)\<close>: appends a new task.\<close>

definition add_task ::
  "('f, 'a) background_task list \<Rightarrow> 'f \<Rightarrow> 'a list \<Rightarrow> (string \<times> 'a) list
     \<Rightarrow> ('f, 'a) background_task list" where
  "add_task tasks f as kws = tasks @ [BackgroundTask f as kws]"

subsection \<open>listen_for_disconnect\<close>

text \<open>An ASGI message; only its \<open>"type"\<close> entry is read.\<close>

record message =
  msg_type :: string

definition tracking_enabled :: "app_state \<Rightarrow> bool" where
  "tracking_enabled st =
     (case enable_server_load_tracking st of None \<Rightarrow> False | Some b \<Rightarrow> b)"

definition has_server_load_metrics :: "app_state \<Rightarrow> bool" where
  "has_server_load_metrics st = (server_load_metrics st \<noteq> None)"

text \<open>
  The statement \<open>state.server_load_metrics += d\<close>: an \<open>AttributeError\<close> when the
  attribute is absent.
\<close>

definition add_server_load :: "int \<Rightarrow> app_state \<Rightarrow> (exn + unit) \<times> app_state" where
  "add_server_load d st =
     (case server_load_metrics st of
        None \<Rightarrow> (Inl (AttributeError ''server_load_metrics''), st)
      | Some c \<Rightarrow> (Inr (), st\<lparr>server_load_metrics := Some (c + d)\<rparr>))"

text \<open>
  The loop of \<open>listen_for_disconnect\<close> over the messages that \<open>request.receive()\<close>
  delivers. The state is touched only when the disconnect message is seen, so \<open>st\<close> is the
  application state at that moment. The result is how the function returned, the state
  it left and the messages left unread; \<open>None\<close> when the messages run out without a disconnect:
  the coroutine is then still awaiting and has not returned.
\<close>

fun listen_for_disconnect ::
  "app_state \<Rightarrow> message list \<Rightarrow> ((exn + unit) \<times> app_state \<times> message list) option"
  where
  "listen_for_disconnect st [] = None"
| "listen_for_disconnect st (m # ms) =
     (if msg_type m = ''http.disconnect'' then
        (if tracking_enabled st \<and> has_server_load_metrics st
         then (case add_server_load (- 1) st of (r, st') \<Rightarrow> Some (r, st', ms))
         else Some (Inr (), st, ms))
      else listen_for_disconnect st ms)"

subsection \<open>with_cancellation\<close>

datatype task = handler_task | cancellation_task

text \<open>Line 76: the request is the second positional argument, else \<open>kwargs["raw_request"]\<close>.\<close>

definition cancellation_request ::
  "('q, 'v) arg list \<Rightarrow> ('q, 'v) kwargs \<Rightarrow> exn + ('q, 'v) arg" where
  "cancellation_request args kwargs =
     (if length args > 1 then Inr (args ! 1)
      else (case kwargs ''raw_request'' of
              None \<Rightarrow> Inl (KeyError ''raw_request'')
            | Some v \<Rightarrow> Inr v))"

text \<open>
  The wrapper of \<open>with_cancellation\<close>. \<open>done\<close> is the set of tasks that
  \<open>asyncio.wait(..., return_when=FIRST_COMPLETED)\<close> reports as finished (every task that
  has finished by the time the waiting coroutine resumes, so possibly both); \<open>pending\<close> is
  the rest. \<open>handler_result\<close> is what \<open>handler_task.result()\<close> gives: the handler's return
  value, or the exception it raised, which \<open>result()\<close> raises again. The second component
  is the list of tasks the wrapper cancelled.
\<close>

definition with_cancellation ::
  "('q, 'v) arg list \<Rightarrow> ('q, 'v) kwargs \<Rightarrow> task list
     \<Rightarrow> exn + ('b, 'f, 'a) response
     \<Rightarrow> (exn + ('b, 'f, 'a) response) \<times> task list" where
  "with_cancellation args kwargs done handler_result =
     (case cancellation_request args kwargs of
        Inl e \<Rightarrow> (Inl e, [])
      | Inr request \<Rightarrow>
          (let pending = filter (\<lambda>t. t \<notin> set done) [handler_task, cancellation_task]
           in (if handler_task \<in> set done then handler_result else Inr NoneValue,
               pending)))"

subsection \<open>decrement_server_load and load_aware_call\<close>

definition decrement_server_load :: "app_state \<Rightarrow> (exn + unit) \<times> app_state" where
  "decrement_server_load st = add_server_load (- 1) st"

text \<open>Lines 101-102: \<open>kwargs.get("raw_request", args[1] if len(args) > 1 else None)\<close>.\<close>

definition find_raw_request :: "('q, 'v) arg list \<Rightarrow> ('q, 'v) kwargs \<Rightarrow> ('q, 'v) arg" where
  "find_raw_request args kwargs =
     (case kwargs ''raw_request'' of
        Some v \<Rightarrow> v
      | None \<Rightarrow> (if length args > 1 then args ! 1 else NoneArg))"

text \<open>\<open>BackgroundTask(decrement_server_load, raw_request)\<close>.\<close>

definition decrement_task :: "'q \<Rightarrow> ('f hook_func, ('q, 'v) arg) background_task" where
  "decrement_task q = BackgroundTask DecrementServerLoad [RequestArg q] []"

text \<open>
  Lines 123-138: the decrement hook is attached to the response's background. The task
  made from a single \<open>BackgroundTask\<close> is built anew from its \<open>func\<close>, \<open>args\<close> and \<open>kwargs\<close>.
\<close>

fun attach_decrement ::
  "'q \<Rightarrow> ('f hook_func, ('q, 'v) arg) background \<Rightarrow> ('f hook_func, ('q, 'v) arg) background"
  where
  "attach_decrement q NoBackground = SingleTask (decrement_task q)"
| "attach_decrement q (BackgroundTasks ts) =
     BackgroundTasks (add_task ts DecrementServerLoad [RequestArg q] [])"
| "attach_decrement q (SingleTask t) =
     BackgroundTasks
       (add_task (add_task [] (task_func t) (task_args t) (task_kwargs t))
          DecrementServerLoad [RequestArg q] [])"

text \<open>
  The wrapper of \<open>load_aware_call\<close> suspends once, at \<open>await func(*args, **kwargs)\<close>.
  \<open>load_aware_enter\<close> is the code before that point (lines 101-116): it fails, or finds
  tracking disabled, or has incremented the counter for request \<open>q\<close>.
\<close>

datatype 'q entered = Untracked | Tracked 'q

definition load_aware_enter ::
  "('q, 'v) arg list \<Rightarrow> ('q, 'v) kwargs \<Rightarrow> app_state \<Rightarrow> (exn + 'q entered) \<times> app_state"
  where
  "load_aware_enter args kwargs st =
     (case find_raw_request args kwargs of
        NoneArg \<Rightarrow>
          (Inl (ValueError ''raw_request required when server load tracking is enabled''), st)
      | OtherArg v \<Rightarrow> (Inl (AttributeError ''app''), st)
      | RequestArg q \<Rightarrow>
          if \<not> tracking_enabled st then (Inr Untracked, st)
          else
            (let st1 = (if \<not> has_server_load_metrics st
                        then st\<lparr>server_load_metrics := Some 0\<rparr> else st)
             in case add_server_load 1 st1 of
                  (Inl e, st2) \<Rightarrow> (Inl e, st2)
                | (Inr u, st2) \<Rightarrow> (Inr (Tracked q), st2)))"

text \<open>
  \<open>load_aware_resume\<close> is the code after the suspension point of a tracked call
  (lines 117-142), given what the awaited handler did: it raised, or it returned.
\<close>

definition load_aware_resume ::
  "'q \<Rightarrow> exn + ('b, 'f hook_func, ('q, 'v) arg) response \<Rightarrow> app_state
     \<Rightarrow> (exn + ('b, 'f hook_func, ('q, 'v) arg) response) \<times> app_state" where
  "load_aware_resume q outcome st =
     (case outcome of
        Inl e \<Rightarrow>
          if is_Exception e then
            (case add_server_load (- 1) st of
               (Inl e', st') \<Rightarrow> (Inl e', st')
             | (Inr u, st') \<Rightarrow> (Inl e, st'))
          else (Inl e, st)
      | Inr (JSONResponse b bg) \<Rightarrow> (Inr (JSONResponse b (attach_decrement q bg)), st)
      | Inr (StreamingResponse b bg) \<Rightarrow> (Inr (StreamingResponse b (attach_decrement q bg)), st)
      | Inr r \<Rightarrow>
          (case add_server_load (- 1) st of
             (Inl e', st') \<Rightarrow> (Inl e', st')
           | (Inr u, st') \<Rightarrow> (Inr r, st')))"

text \<open>
  The whole wrapper. \<open>func\<close> is the wrapped handler as the wrapper sees it: given the
  state at the moment it is awaited, its outcome and the state at the moment it finishes.
\<close>

definition load_aware_call ::
  "(('q, 'v) arg list \<Rightarrow> ('q, 'v) kwargs \<Rightarrow> app_state
      \<Rightarrow> (exn + ('b, 'f hook_func, ('q, 'v) arg) response) \<times> app_state)
     \<Rightarrow> ('q, 'v) arg list \<Rightarrow> ('q, 'v) kwargs \<Rightarrow> app_state
     \<Rightarrow> (exn + ('b, 'f hook_func, ('q, 'v) arg) response) \<times> app_state" where
  "load_aware_call func args kwargs st =
     (case load_aware_enter args kwargs st of
        (Inl e, st1) \<Rightarrow> (Inl e, st1)
      | (Inr Untracked, st1) \<Rightarrow> func args kwargs st1
      | (Inr (Tracked q), st1) \<Rightarrow>
          (case func args kwargs st1 of (outcome, st2) \<Rightarrow> load_aware_resume q outcome st2))"

section \<open>vllm/executor/uniproc_executor.py\<close>

subsection \<open>Configuration, calls and the worker\<close>

text \<open>
  The two entries of \<open>vllm_config\<close> that the module reads: the device as
  \<open>device.__str__()\<close> prints it, and the scheduler's delay factor (compared with
  \<open>0.0\<close> only).
\<close>

record vllm_config =
  device :: string
  delay_factor :: real

text \<open>The \<open>kwargs\<close> dictionary that \<open>_init_executor\<close> hands to \<open>init_worker\<close>.\<close>

record worker_kwargs =
  kw_vllm_config :: vllm_config
  kw_local_rank :: int
  kw_rank :: int
  kw_distributed_init_method :: string
  kw_is_driver_worker :: bool

text \<open>
  Modelled from the spec: \<open>ReconfigureRankType\<close> and \<open>ReconfigureDistributedRequest\<close>
  (vllm.v1.engine) are not under src. The spec gives \<open>newDataParallelRank\<close> as an integer
  or a sentinel that means "shut down this rank".
\<close>

datatype new_rank = NewRank int | SHUTDOWN_CURRENT_RANK

record reconfigure_request =
  new_data_parallel_rank :: new_rank

datatype 'c rpc_method = MethodName string | MethodCallable 'c

datatype 'v rpc_arg =
    InitKwargs "worker_kwargs list"
  | ReconfigureArg reconfigure_request
  | ArgValue 'v

datatype ('c, 'v) rpc_call =
  RpcCall (call_method: "'c rpc_method") (call_args: "'v rpc_arg list")
    (call_kwargs: "(string \<times> 'v rpc_arg) list")

text \<open>
  The worker behind \<open>WorkerWrapperBase\<close> is external: its behaviour is a parameter, a
  function from the worker's state and a call to the call's outcome and the new state.
  The handle keeps, beside the worker's state, the list of calls dispatched to it.
\<close>

type_synonym ('w, 'c, 'v, 'r) worker_behaviour =
  "'w \<Rightarrow> ('c, 'v) rpc_call \<Rightarrow> (exn + 'r) \<times> 'w"

record ('w, 'c, 'v) worker_handle =
  worker_state :: 'w
  rpc_log :: "('c, 'v) rpc_call list"

text \<open>
  Modelled from the spec: the lifecycle states of an Executor (UNINITIALIZED, INITIALIZING,
  READY, SHUTDOWN) are the spec's; no code under src reads or writes such a state.
\<close>

datatype lifecycle = UNINITIALIZED | INITIALIZING | READY | SHUTDOWN

record ('w, 'c, 'v) executor =
  driver_worker :: "('w, 'c, 'v) worker_handle option"
  lifecycle :: lifecycle

text \<open>
  Modelled from the spec: \<open>run_method\<close> (vllm.utils) is not under src; the spec's
  \<open>invoke(methodNameOrCallable, args, kwargs) -> result\<close>. It runs the call on the worker;
  the call is recorded whether it returns or raises.
\<close>

definition run_method ::
  "('w, 'c, 'v, 'r) worker_behaviour \<Rightarrow> ('w, 'c, 'v) worker_handle \<Rightarrow> 'c rpc_method
     \<Rightarrow> 'v rpc_arg list \<Rightarrow> (string \<times> 'v rpc_arg) list
     \<Rightarrow> (exn + 'r) \<times> ('w, 'c, 'v) worker_handle" where
  "run_method run w method args kwargs =
     (case run (worker_state w) (RpcCall method args kwargs) of
        (answer, s') \<Rightarrow>
          (answer, \<lparr>worker_state = s', rpc_log = rpc_log w @ [RpcCall method args kwargs]\<rparr>))"

text \<open>\<open>WorkerWrapperBase(vllm_config=..., rpc_rank=0)\<close>: a fresh handle, nothing dispatched yet.\<close>

definition WorkerWrapperBase :: "'w \<Rightarrow> ('w, 'c, 'v) worker_handle" where
  "WorkerWrapperBase w0 = \<lparr>worker_state = w0, rpc_log = []\<rparr>"

subsection \<open>UniProcExecutor\<close>

text \<open>
  \<open>collective_rpc\<close> (lines 51-59). The \<open>timeout\<close> is accepted and never read. Before
  \<open>_init_executor\<close> has run there is no \<open>driver_worker\<close> attribute.
\<close>

definition collective_rpc ::
  "('w, 'c, 'v, 'r) worker_behaviour \<Rightarrow> ('w, 'c, 'v) executor \<Rightarrow> 'c rpc_method
     \<Rightarrow> real option \<Rightarrow> 'v rpc_arg list \<Rightarrow> (string \<times> 'v rpc_arg) list option
     \<Rightarrow> (exn + 'r list) \<times> ('w, 'c, 'v) executor" where
  "collective_rpc run self method timeout args kwargs =
     (let kwargs' = (case kwargs of None \<Rightarrow> [] | Some k \<Rightarrow> k)
      in case driver_worker self of
           None \<Rightarrow> (Inl (AttributeError ''driver_worker''), self)
         | Some w \<Rightarrow>
             (case run_method run w method args kwargs' of
                (Inl e, w') \<Rightarrow> (Inl e, self\<lparr>driver_worker := Some w'\<rparr>)
              | (Inr answer, w') \<Rightarrow> (Inr [answer], self\<lparr>driver_worker := Some w'\<rparr>)))"

text \<open>Python's \<open>s.split(c)\<close> for a one-character separator.\<close>

fun split_on :: "char \<Rightarrow> string \<Rightarrow> string list" where
  "split_on c [] = [[]]"
| "split_on c (x # xs) =
     (if x = c then [] # split_on c xs
      else (case split_on c xs of
              [] \<Rightarrow> [[x]]
            | w # ws \<Rightarrow> (x # w) # ws))"

text \<open>
  \<open>int(s)\<close> on a string; the builtin's parser is a parameter \<open>py_int\<close>, \<open>None\<close> where
  it raises \<open>ValueError\<close>.
\<close>

definition int_of_str :: "(string \<Rightarrow> int option) \<Rightarrow> string \<Rightarrow> exn + int" where
  "int_of_str py_int s =
     (case py_int s of None \<Rightarrow> Inl (ValueError ''invalid literal for int()'') | Some n \<Rightarrow> Inr n)"

text \<open>
  Lines 32-37: the local rank is the device index when the device's name has one
  (\<open>cuda:1\<close>), else 0.
\<close>

definition local_rank_of :: "(string \<Rightarrow> int option) \<Rightarrow> vllm_config \<Rightarrow> exn + int" where
  "local_rank_of py_int cfg =
     (let device_info = split_on CHR '':'' (device cfg)
      in if length device_info > 1 then int_of_str py_int (device_info ! 1) else Inr 0)"

text \<open>
  The three calls that end both \<open>_init_executor\<close> methods (lines 47-49 and 127-129); an
  exception raised by one of them ends the method.
\<close>

definition bootstrap ::
  "('w, 'c, 'v, 'r) worker_behaviour \<Rightarrow> worker_kwargs \<Rightarrow> ('w, 'c, 'v) executor
     \<Rightarrow> (exn + unit) \<times> ('w, 'c, 'v) executor" where
  "bootstrap run kwargs self =
     (case collective_rpc run self (MethodName ''init_worker'') None [InitKwargs [kwargs]] None of
        (Inl e, s1) \<Rightarrow> (Inl e, s1)
      | (Inr a1, s1) \<Rightarrow>
          (case collective_rpc run s1 (MethodName ''init_device'') None [] None of
             (Inl e, s2) \<Rightarrow> (Inl e, s2)
           | (Inr a2, s2) \<Rightarrow>
               (case collective_rpc run s2 (MethodName ''load_model'') None [] None of
                  (Inl e, s3) \<Rightarrow> (Inl e, s3)
                | (Inr a3, s3) \<Rightarrow> (Inr (), s3))))"

text \<open>
  \<open>UniProcExecutor._init_executor\<close> (lines 25-49). \<open>w0\<close> is the state of the worker
  that \<open>WorkerWrapperBase\<close> creates, \<open>init_method\<close> what
  \<open>get_distributed_init_method(get_ip(), get_open_port())\<close> returns.
\<close>

definition UniProcExecutor_init_executor ::
  "('w, 'c, 'v, 'r) worker_behaviour \<Rightarrow> (string \<Rightarrow> int option) \<Rightarrow> 'w \<Rightarrow> string
     \<Rightarrow> vllm_config \<Rightarrow> ('w, 'c, 'v) executor \<Rightarrow> (exn + unit) \<times> ('w, 'c, 'v) executor" where
  "UniProcExecutor_init_executor run py_int w0 init_method cfg self =
     (let self1 = self\<lparr>driver_worker := Some (WorkerWrapperBase w0)\<rparr>
      in case local_rank_of py_int cfg of
           Inl e \<Rightarrow> (Inl e, self1)
         | Inr local_rank \<Rightarrow>
             bootstrap run
               \<lparr>kw_vllm_config = cfg, kw_local_rank = local_rank, kw_rank = 0,
                kw_distributed_init_method = init_method, kw_is_driver_worker = True\<rparr>
               self1)"

text \<open>
  Modelled from the spec: \<open>ExecutorBase.shutdown\<close> is not under src. The spec says that
  the Executor "transitions to SHUTDOWN".
\<close>

definition shutdown :: "('w, 'c, 'v) executor \<Rightarrow> (exn + unit) \<times> ('w, 'c, 'v) executor" where
  "shutdown self = (Inr (), self\<lparr>lifecycle := SHUTDOWN\<rparr>)"

text \<open>
  \<open>reinitialize_distributed\<close> (lines 66-72): the worker's method of the same name is called
  first, then \<open>shutdown\<close> when the request carries the sentinel.
\<close>

definition reinitialize_distributed ::
  "('w, 'c, 'v, 'r) worker_behaviour \<Rightarrow> ('w, 'c, 'v) executor \<Rightarrow> reconfigure_request
     \<Rightarrow> (exn + unit) \<times> ('w, 'c, 'v) executor" where
  "reinitialize_distributed run self reconfig_request =
     (case driver_worker self of
        None \<Rightarrow> (Inl (AttributeError ''driver_worker''), self)
      | Some w \<Rightarrow>
          (case run_method run w (MethodName ''reinitialize_distributed'')
                  [ReconfigureArg reconfig_request] [] of
             (Inl e, w') \<Rightarrow> (Inl e, self\<lparr>driver_worker := Some w'\<rparr>)
           | (Inr a, w') \<Rightarrow>
               (if new_data_parallel_rank reconfig_request = SHUTDOWN_CURRENT_RANK
                then shutdown (self\<lparr>driver_worker := Some w'\<rparr>)
                else (Inr (), self\<lparr>driver_worker := Some w'\<rparr>))))"

subsection \<open>ExecutorWithExternalLauncher\<close>

text \<open>What the method reads of \<open>vllm.envs\<close> and \<open>os.environ\<close>.\<close>

record envs =
  VLLM_USE_V1 :: bool
  VLLM_ENABLE_V1_MULTIPROCESSING :: bool
  os_environ :: "string \<rightharpoonup> string"

definition environ_int :: "(string \<Rightarrow> int option) \<Rightarrow> envs \<Rightarrow> string \<Rightarrow> exn + int" where
  "environ_int py_int env key =
     (case os_environ env key of
        None \<Rightarrow> Inl (KeyError key)
      | Some s \<Rightarrow> int_of_str py_int s)"

text \<open>\<open>ExecutorWithExternalLauncher._init_executor\<close> (lines 96-129).\<close>

definition ExecutorWithExternalLauncher_init_executor ::
  "('w, 'c, 'v, 'r) worker_behaviour \<Rightarrow> (string \<Rightarrow> int option) \<Rightarrow> 'w \<Rightarrow> envs
     \<Rightarrow> vllm_config \<Rightarrow> ('w, 'c, 'v) executor \<Rightarrow> (exn + unit) \<times> ('w, 'c, 'v) executor" where
  "ExecutorWithExternalLauncher_init_executor run py_int w0 env cfg self =
     (if delay_factor cfg \<noteq> 0 then
        (Inl (AssertionError ''ExecutorWithExternalLauncher needs deterministic execution''),
         self)
      else if VLLM_USE_V1 env \<and> VLLM_ENABLE_V1_MULTIPROCESSING env then
        (Inl (AssertionError ''please set VLLM_ENABLE_V1_MULTIPROCESSING=0''), self)
      else
        (let self1 = self\<lparr>driver_worker := Some (WorkerWrapperBase w0)\<rparr>
         in case environ_int py_int env ''RANK'' of
              Inl e \<Rightarrow> (Inl e, self1)
            | Inr rank \<Rightarrow>
                (case environ_int py_int env ''LOCAL_RANK'' of
                   Inl e \<Rightarrow> (Inl e, self1)
                 | Inr local_rank \<Rightarrow>
                     bootstrap run
                       \<lparr>kw_vllm_config = cfg, kw_local_rank = local_rank, kw_rank = rank,
                        kw_distributed_init_method = ''env://'', kw_is_driver_worker = True\<rparr>
                       self1)))"

text \<open>
  \<open>torch.tensor([a], device="cpu", dtype=torch.int64)\<close>: the value must fit 64 signed
  bits, else torch raises.
\<close>

definition fits_int64 :: "int \<Rightarrow> bool" where
  "fits_int64 a = (- (2 ^ 63) \<le> a \<and> a < 2 ^ 63)"

definition torch_tensor_int64 :: "int \<Rightarrow> exn + int" where
  "torch_tensor_int64 a =
     (if fits_int64 a then Inr a else Inl (RuntimeError ''Overflow when unpacking long''))"

text \<open>
  \<open>dist.all_reduce(t, group=cpu_group, op=dist.ReduceOp.MIN)\<close> as one rank sees it: its
  own tensor is overwritten with the minimum of its value and the values the other ranks
  of the group contribute.
\<close>

definition all_reduce_MIN :: "int \<Rightarrow> int list \<Rightarrow> int" where
  "all_reduce_MIN own peers = min_list (own # peers)"

text \<open>
  \<open>determine_num_available_blocks\<close> (lines 131-148) on one rank. \<open>local_report\<close> is what
  \<open>super().determine_num_available_blocks()\<close> returned on this rank, \<open>peers\<close> the pairs
  the other ranks feed into the two reductions.
\<close>

definition determine_num_available_blocks ::
  "int \<times> int \<Rightarrow> (int \<times> int) list \<Rightarrow> exn + int \<times> int" where
  "determine_num_available_blocks local_report peers =
     (case local_report of
        (a, b) \<Rightarrow>
          (case torch_tensor_int64 a of
             Inl e \<Rightarrow> Inl e
           | Inr a_tensor \<Rightarrow>
               (case torch_tensor_int64 b of
                  Inl e \<Rightarrow> Inl e
                | Inr b_tensor \<Rightarrow>
                    Inr (all_reduce_MIN a_tensor (map fst peers),
                         all_reduce_MIN b_tensor (map snd peers)))))"

text \<open>
  A group of ranks, each with its local report: the peers of rank \<open>r\<close> are all the
  others, and every rank runs the method.
\<close>

definition peers_of :: "'a list \<Rightarrow> nat \<Rightarrow> 'a list" where
  "peers_of reports r = take r reports @ drop (Suc r) reports"

definition rank_result :: "(int \<times> int) list \<Rightarrow> nat \<Rightarrow> exn + int \<times> int" where
  "rank_result reports r = determine_num_available_blocks (reports ! r) (peers_of reports r)"

section \<open>Predicates and sample inputs for the theorems\<close>

text \<open>The calls of a bootstrap, in the order of the source.\<close>

definition bootstrap_calls :: "worker_kwargs \<Rightarrow> ('c, 'v) rpc_call list" where
  "bootstrap_calls kwargs =
     [RpcCall (MethodName ''init_worker'') [InitKwargs [kwargs]] [],
      RpcCall (MethodName ''init_device'') [] [],
      RpcCall (MethodName ''load_model'') [] []]"

text \<open>
  The reference run of a list of calls on a worker, one after the other, each on the
  state the one before left, stopping at the first that raises: the outcome (the first
  exception, if any), the worker's final state, and the calls that were made.
\<close>

fun run_calls ::
  "('w, 'c, 'v, 'r) worker_behaviour \<Rightarrow> 'w \<Rightarrow> ('c, 'v) rpc_call list
     \<Rightarrow> (exn + unit) \<times> 'w \<times> ('c, 'v) rpc_call list" where
  "run_calls run s [] = (Inr (), s, [])"
| "run_calls run s (c # cs) =
     (case run s c of
        (Inl e, s') \<Rightarrow> (Inl e, s', [c])
      | (Inr a, s') \<Rightarrow>
          (case run_calls run s' cs of (r, s'', made) \<Rightarrow> (r, s'', c # made)))"

text \<open>A worker none of whose methods raises.\<close>

definition never_raises :: "('w, 'c, 'v, 'r) worker_behaviour \<Rightarrow> bool" where
  "never_raises run = (\<forall>s call. \<exists>a s'. run s call = (Inr a, s'))"

text \<open>A handler that finishes with the given outcome and leaves the application state alone.\<close>

definition const_handler ::
  "exn + ('b, 'f hook_func, ('q, 'v) arg) response \<Rightarrow> ('q, 'v) arg list \<Rightarrow> ('q, 'v) kwargs
     \<Rightarrow> app_state \<Rightarrow> (exn + ('b, 'f hook_func, ('q, 'v) arg) response) \<times> app_state" where
  "const_handler outcome args kwargs st = (outcome, st)"

text \<open>Application states: tracking enabled with the counter at \<open>n\<close>; tracking disabled.\<close>

definition tracked_state :: "int \<Rightarrow> app_state" where
  "tracked_state n = \<lparr>enable_server_load_tracking = Some True, server_load_metrics = Some n\<rparr>"

definition untracked_state :: app_state where
  "untracked_state = \<lparr>enable_server_load_tracking = Some False, server_load_metrics = None\<rparr>"

text \<open>FastAPI passes the request by keyword: \<open>raw_request=<request q>\<close>.\<close>

definition raw_request_kwargs :: "nat \<Rightarrow> (nat, unit) kwargs" where
  "raw_request_kwargs q = [''raw_request'' \<mapsto> RequestArg q]"

definition request_message :: message where
  "request_message = \<lparr>msg_type = ''http.request''\<rparr>"

definition disconnect_message :: message where
  "disconnect_message = \<lparr>msg_type = ''http.disconnect''\<rparr>"

text \<open>Two hooks a handler attached itself.\<close>

definition log_hook :: "(string hook_func, (nat, unit) arg) background_task" where
  "log_hook = BackgroundTask (HandlerHook ''log'') [] []"

definition cleanup_hook :: "(string hook_func, (nat, unit) arg) background_task" where
  "cleanup_hook = BackgroundTask (HandlerHook ''cleanup'') [OtherArg ()] []"

text \<open>
  A worker that answers every call with the name of the method and counts the calls it
  has served.
\<close>

definition echo_worker :: "nat \<Rightarrow> (unit, unit) rpc_call \<Rightarrow> (exn + string) \<times> nat" where
  "echo_worker n call =
     (case call_method call of
        MethodName m \<Rightarrow> (Inr m, Suc n)
      | MethodCallable c \<Rightarrow> (Inr ''callable'', Suc n))"

text \<open>
  A worker that raises in the methods named in \<open>bad\<close> and answers every other call with
  the name of the method; it counts the calls it has served either way.
\<close>

definition picky_worker ::
  "string list \<Rightarrow> nat \<Rightarrow> (unit, unit) rpc_call \<Rightarrow> (exn + string) \<times> nat" where
  "picky_worker bad n call =
     (case call_method call of
        MethodName m \<Rightarrow>
          (if m \<in> set bad then (Inl (RaisedException m), Suc n) else (Inr m, Suc n))
      | MethodCallable c \<Rightarrow> (Inr ''callable'', Suc n))"

definition cuda1_config :: vllm_config where
  "cuda1_config = \<lparr>device = ''cuda:1'', delay_factor = 0\<rparr>"

text \<open>The \<open>kwargs\<close> of \<open>init_worker\<close> on device \<open>cuda:1\<close>.\<close>

definition cuda1_kwargs :: worker_kwargs where
  "cuda1_kwargs =
     \<lparr>kw_vllm_config = cuda1_config, kw_local_rank = 1, kw_rank = 0,
      kw_distributed_init_method = ''tcp://127.0.0.1:29500'', kw_is_driver_worker = True\<rparr>"

definition half_delay_config :: vllm_config where
  "half_delay_config = \<lparr>device = ''cuda:0'', delay_factor = 0.5\<rparr>"

definition launcher_env :: envs where
  "launcher_env =
     \<lparr>VLLM_USE_V1 = True, VLLM_ENABLE_V1_MULTIPROCESSING = False,
      os_environ = [''RANK'' \<mapsto> ''0'', ''LOCAL_RANK'' \<mapsto> ''0'']\<rparr>"

text \<open>\<open>int\<close> on the two strings the samples use.\<close>

definition sample_int :: "string \<Rightarrow> int option" where
  "sample_int = [''0'' \<mapsto> 0, ''1'' \<mapsto> 1]"

definition new_executor :: "(nat, unit, unit) executor" where
  "new_executor = \<lparr>driver_worker = None, lifecycle = UNINITIALIZED\<rparr>"

definition ready_executor :: "(nat, unit, unit) executor" where
  "ready_executor = \<lparr>driver_worker = Some (WorkerWrapperBase 0), lifecycle = READY\<rparr>"

definition shutdown_request :: reconfigure_request where
  "shutdown_request = \<lparr>new_data_parallel_rank = SHUTDOWN_CURRENT_RANK\<rparr>"

section \<open>Lemmas on the request wrappers\<close>

lemma background_hooks_attach_decrement:
  "background_hooks (attach_decrement q bg) = background_hooks bg @ [decrement_task q]"
  by (cases bg) (simp_all add: add_task_def decrement_task_def)

text \<open>A tracked call creates the counter when it is absent and adds one to it.\<close>

lemma load_aware_enter_tracked:
  assumes "tracking_enabled st" and "find_raw_request args kwargs = RequestArg q"
  shows "load_aware_enter args kwargs st =
           (Inr (Tracked q),
            st\<lparr>server_load_metrics :=
                 Some ((case server_load_metrics st of None \<Rightarrow> 0 | Some c \<Rightarrow> c) + 1)\<rparr>)"
  using assms
  by (cases "server_load_metrics st")
     (simp_all add: load_aware_enter_def has_server_load_metrics_def add_server_load_def)

lemma load_aware_call_tracked:
  assumes "tracking_enabled st" and "find_raw_request args kwargs = RequestArg q"
    and "func args kwargs (snd (load_aware_enter args kwargs st)) = (outcome, st2)"
  shows "load_aware_call func args kwargs st = load_aware_resume q outcome st2"
  using assms by (simp add: load_aware_call_def load_aware_enter_tracked)

text \<open>
  Once a disconnect message is among the messages, \<open>listen_for_disconnect\<close> returns, and
  the state it leaves is the state it found, with the counter one lower when tracking is
  enabled and the counter exists.
\<close>

lemma listen_for_disconnect_returns:
  assumes "\<exists>m \<in> set msgs. msg_type m = ''http.disconnect''"
  shows "\<exists>ms'. listen_for_disconnect st msgs =
           Some (Inr (),
                 if tracking_enabled st \<and> has_server_load_metrics st
                 then st\<lparr>server_load_metrics := map_option (\<lambda>c. c - 1) (server_load_metrics st)\<rparr>
                 else st,
                 ms')"
  using assms
proof (induction msgs)
  case Nil
  then show ?case by simp
next
  case (Cons m ms)
  show ?case
  proof (cases "msg_type m = ''http.disconnect''")
    case True
    then show ?thesis
      by (auto simp: add_server_load_def has_server_load_metrics_def)
  next
    case False
    with Cons show ?thesis by simp
  qed
qed

lemma sample_request_found:
  "find_raw_request [] (raw_request_kwargs q) = RequestArg q"
  by (simp add: find_raw_request_def raw_request_kwargs_def)

lemma sample_enter:
  "load_aware_enter [] (raw_request_kwargs q) (tracked_state n)
     = (Inr (Tracked q), tracked_state (n + 1))"
proof -
  have "tracking_enabled (tracked_state n)"
    by (simp add: tracked_state_def tracking_enabled_def)
  then show ?thesis
    by (simp add: load_aware_enter_tracked sample_request_found) (simp add: tracked_state_def)
qed

text \<open>
  Each decrement of the module, taken alone, undoes one increment: the wrapper's on an
  \<open>Exception\<close> of the handler and on a value without hooks, the hook's
  (\<open>decrement_server_load\<close>, the wrapper itself leaving the counter alone when it attaches
  the hook), and the listener's on a disconnect.
\<close>

lemma single_decrement_balances:
  fixes q :: nat and b :: string
    and bg :: "(string hook_func, (nat, unit) arg) background"
  shows "load_aware_resume q (Inl (RaisedException x)) (tracked_state (n + 1))
           = (Inl (RaisedException x)
                :: exn + (string, string hook_func, (nat, unit) arg) response,
              tracked_state n)"
    and "load_aware_resume q (Inr (OtherValue b)) (tracked_state (n + 1))
           = (Inr (OtherValue b :: (string, string hook_func, (nat, unit) arg) response),
              tracked_state n)"
    and "snd (load_aware_resume q (Inr (JSONResponse b bg)) (tracked_state (n + 1)))
           = tracked_state (n + 1)"
    and "decrement_server_load (tracked_state (n + 1)) = (Inr (), tracked_state n)"
    and "listen_for_disconnect (tracked_state (n + 1)) [disconnect_message]
           = Some (Inr (), tracked_state n, [])"
  by (simp_all add: load_aware_resume_def add_server_load_def tracked_state_def
      decrement_server_load_def disconnect_message_def tracking_enabled_def
      has_server_load_metrics_def)

section \<open>The request wrappers: results\<close>

text \<open>
  Claim C1 (amended). Once the request is located, what \<open>with_cancellation\<close> returns and
  cancels is fixed by the tasks that \<open>asyncio.wait\<close> reports as finished. When only the
  handler task has finished, the wrapper returns the handler's own result (its value, or
  the exception it raised, unchanged) and cancels the disconnect-watching task. When only
  the disconnect-watching task has finished, the wrapper returns \<open>None\<close> and cancels the
  handler task. When both have finished by the time the wrapper resumes, it returns the
  handler's result and cancels nothing.
\<close>

theorem with_cancellation_outcomes:
  assumes "cancellation_request args kwargs = Inr request"
  shows "(set done = {handler_task} \<longrightarrow>
            with_cancellation args kwargs done handler_result =
              (handler_result, [cancellation_task])) \<and>
         (set done = {cancellation_task} \<longrightarrow>
            with_cancellation args kwargs done handler_result =
              (Inr NoneValue, [handler_task])) \<and>
         (set done = {handler_task, cancellation_task} \<longrightarrow>
            with_cancellation args kwargs done handler_result = (handler_result, []))"
proof -
  have wc: "with_cancellation args kwargs done handler_result =
              (if handler_task \<in> set done then handler_result else Inr NoneValue,
               filter (\<lambda>t. t \<notin> set done) [handler_task, cancellation_task])"
    using assms by (simp add: with_cancellation_def)
  show ?thesis
    unfolding wc by simp
qed

text \<open>The three outcomes on a request passed by keyword.\<close>

theorem with_cancellation_outcomes_witness:
  "cancellation_request [] (raw_request_kwargs 0) = Inr (RequestArg 0) \<and>
   with_cancellation [] (raw_request_kwargs 0) [handler_task]
       (Inr (OtherValue ''body'') :: exn + (string, unit, unit) response)
     = (Inr (OtherValue ''body''), [cancellation_task]) \<and>
   with_cancellation [] (raw_request_kwargs 0) [handler_task]
       (Inl (RaisedException ''boom'') :: exn + (string, unit, unit) response)
     = (Inl (RaisedException ''boom''), [cancellation_task]) \<and>
   with_cancellation [] (raw_request_kwargs 0) [cancellation_task]
       (Inr (OtherValue ''body'') :: exn + (string, unit, unit) response)
     = (Inr NoneValue, [handler_task])"
proof -
  have req: "cancellation_request [] (raw_request_kwargs 0) = (Inr (RequestArg 0) :: exn + (nat, unit) arg)"
    by (simp add: cancellation_request_def raw_request_kwargs_def)
  show ?thesis
    using req
      with_cancellation_outcomes [OF req, of "[handler_task]" "Inr (OtherValue ''body'')"]
      with_cancellation_outcomes [OF req, of "[handler_task]" "Inl (RaisedException ''boom'')"]
      with_cancellation_outcomes [OF req, of "[cancellation_task]" "Inr (OtherValue ''body'')"]
    by simp
qed

text \<open>
  C1 as stated fails when both tasks finish in the same pass of the event loop: the
  disconnect has been observed, yet the wrapper returns the handler's result rather than
  \<open>None\<close>, and neither task is cancelled.
\<close>

theorem with_cancellation_both_done:
  "with_cancellation [] (raw_request_kwargs 0) [handler_task, cancellation_task]
       (Inr (OtherValue ''body'') :: exn + (string, unit, unit) response)
     = (Inr (OtherValue ''body''), [])"
  by (simp add: with_cancellation_def cancellation_request_def raw_request_kwargs_def)

text \<open>
  Claim C2. The counter of live requests is meant to stay within \<open>[0, N]\<close> and to return
  to 0, each increment of \<open>load_aware_call\<close> being matched by exactly one decrement. The
  code attempts this and misses a case: the decrement of \<open>listen_for_disconnect\<close> is not
  exclusive with the decrements of \<open>load_aware_call\<close>. Two runs of one tracked request,
  starting with the counter at 0, each step a function of the source:

  \<^item> \<open>with_cancellation(load_aware_call(handler))\<close>: the wrapper of \<open>load_aware_call\<close>
    increments (counter 1); the handler returns a value without hooks and the wrapper
    decrements (counter 0); the disconnect message arrives in the same pass of the event
    loop and the listener decrements again (counter -1); \<open>asyncio.wait\<close> reports both
    tasks finished and the handler's result is returned.
  \<^item> \<open>load_aware_call(with_cancellation(handler))\<close>: the outer wrapper increments
    (counter 1); the listener sees the disconnect and decrements (counter 0);
    \<open>with_cancellation\<close> returns \<open>None\<close>, which is not a response with hooks, so the outer
    wrapper decrements again (counter -1).

  In both runs the counter of the single request ends at -1, outside \<open>[0, 1]\<close>.
\<close>

theorem server_load_double_decrement:
  "load_aware_enter [] (raw_request_kwargs 0) (tracked_state 0)
     = (Inr (Tracked 0), tracked_state 1) \<and>
   load_aware_resume (0::nat) (Inr (OtherValue ''body'')) (tracked_state 1)
     = (Inr (OtherValue ''body'' :: (string, unit hook_func, (nat, unit) arg) response),
        tracked_state 0) \<and>
   listen_for_disconnect (tracked_state 0) [disconnect_message]
     = Some (Inr (), tracked_state (- 1), []) \<and>
   with_cancellation [] (raw_request_kwargs 0) [handler_task, cancellation_task]
       (Inr (OtherValue ''body'') :: exn + (string, unit hook_func, (nat, unit) arg) response)
     = (Inr (OtherValue ''body''), []) \<and>
   listen_for_disconnect (tracked_state 1) [disconnect_message]
     = Some (Inr (), tracked_state 0, []) \<and>
   with_cancellation [] (raw_request_kwargs 0) [cancellation_task]
       (Inr (OtherValue ''body'') :: exn + (string, unit hook_func, (nat, unit) arg) response)
     = (Inr NoneValue, [handler_task]) \<and>
   load_aware_resume (0::nat) (Inr NoneValue) (tracked_state 0)
     = (Inr (NoneValue :: (string, unit hook_func, (nat, unit) arg) response),
        tracked_state (- 1))"
proof -
  have enter: "load_aware_enter [] (raw_request_kwargs 0) (tracked_state 0)
     = (Inr (Tracked 0), tracked_state 1)"
    using sample_enter [of 0 0] by simp
  have resume: "load_aware_resume (0::nat) (Inr (OtherValue ''body'')) (tracked_state 1)
     = (Inr (OtherValue ''body'' :: (string, unit hook_func, (nat, unit) arg) response),
        tracked_state 0)"
    by (simp add: load_aware_resume_def add_server_load_def tracked_state_def)
  have listen: "listen_for_disconnect (tracked_state 0) [disconnect_message]
     = Some (Inr (), tracked_state (- 1), [])"
    by (simp add: disconnect_message_def tracked_state_def tracking_enabled_def
        has_server_load_metrics_def add_server_load_def)
  have guard: "with_cancellation [] (raw_request_kwargs 0) [handler_task, cancellation_task]
       (Inr (OtherValue ''body'') :: exn + (string, unit hook_func, (nat, unit) arg) response)
     = (Inr (OtherValue ''body''), [])"
    by (simp add: with_cancellation_def cancellation_request_def raw_request_kwargs_def)
  have listen': "listen_for_disconnect (tracked_state 1) [disconnect_message]
     = Some (Inr (), tracked_state 0, [])"
    by (simp add: disconnect_message_def tracked_state_def tracking_enabled_def
        has_server_load_metrics_def add_server_load_def)
  have guard': "with_cancellation [] (raw_request_kwargs 0) [cancellation_task]
       (Inr (OtherValue ''body'') :: exn + (string, unit hook_func, (nat, unit) arg) response)
     = (Inr NoneValue, [handler_task])"
    by (simp add: with_cancellation_def cancellation_request_def raw_request_kwargs_def)
  have resume': "load_aware_resume (0::nat) (Inr NoneValue) (tracked_state 0)
     = (Inr (NoneValue :: (string, unit hook_func, (nat, unit) arg) response),
        tracked_state (- 1))"
    by (simp add: load_aware_resume_def add_server_load_def tracked_state_def)
  show ?thesis
    using enter resume listen guard listen' guard' resume' by simp
qed

text \<open>
  Claim C3 (amended). When the request is located among the arguments and tracking is
  disabled, \<open>load_aware_call\<close> is the handler itself: same result, same state, no error
  of its own. When the request cannot be located, the wrapper raises its \<open>ValueError\<close>
  and leaves the state untouched, whatever the tracking setting: the setting is read
  from the request, so the lookup comes first.
\<close>

theorem load_aware_call_untracked:
  "(\<not> tracking_enabled st \<and> find_raw_request args kwargs = RequestArg q \<longrightarrow>
      load_aware_call func args kwargs st = func args kwargs st) \<and>
   (find_raw_request args kwargs = NoneArg \<longrightarrow>
      load_aware_call func args kwargs st =
        (Inl (ValueError ''raw_request required when server load tracking is enabled''), st))"
proof (intro conjI impI)
  assume "\<not> tracking_enabled st \<and> find_raw_request args kwargs = RequestArg q"
  then have "load_aware_enter args kwargs st = (Inr Untracked, st)"
    by (simp add: load_aware_enter_def)
  then show "load_aware_call func args kwargs st = func args kwargs st"
    by (simp add: load_aware_call_def)
next
  assume "find_raw_request args kwargs = NoneArg"
  then have "load_aware_enter args kwargs st =
      (Inl (ValueError ''raw_request required when server load tracking is enabled''), st)"
    by (simp add: load_aware_enter_def)
  then show "load_aware_call func args kwargs st =
        (Inl (ValueError ''raw_request required when server load tracking is enabled''), st)"
    by (simp add: load_aware_call_def)
qed

text \<open>
  A call with tracking disabled and the request passed by keyword, and a call with no
  request among its arguments.
\<close>

theorem load_aware_call_untracked_witness:
  "\<not> tracking_enabled untracked_state \<and>
   find_raw_request [] (raw_request_kwargs 0) = RequestArg 0 \<and>
   load_aware_call (const_handler (Inr (OtherValue ''body''))) [] (raw_request_kwargs 0)
       untracked_state
     = (Inr (OtherValue ''body'' :: (string, unit hook_func, (nat, unit) arg) response),
        untracked_state) \<and>
   find_raw_request [OtherArg ()] (Map.empty :: (nat, unit) kwargs) = NoneArg \<and>
   load_aware_call (const_handler (Inr (OtherValue ''body''))) [OtherArg ()]
       (Map.empty :: (nat, unit) kwargs) (tracked_state 0)
     = (Inl (ValueError ''raw_request required when server load tracking is enabled'')
          :: exn + (string, unit hook_func, (nat, unit) arg) response,
        tracked_state 0)"
proof -
  have off: "\<not> tracking_enabled untracked_state"
    by (simp add: untracked_state_def tracking_enabled_def)
  have none: "find_raw_request [OtherArg ()] (Map.empty :: (nat, unit) kwargs) = NoneArg"
    by (simp add: find_raw_request_def)
  show ?thesis
    using off none sample_request_found [of 0]
      load_aware_call_untracked [of untracked_state "[]" "raw_request_kwargs 0" 0
        "const_handler (Inr (OtherValue ''body''))"]
      load_aware_call_untracked [of "tracked_state 0" "[OtherArg ()]"
        "Map.empty :: (nat, unit) kwargs" 0 "const_handler (Inr (OtherValue ''body''))"]
    by (simp add: const_handler_def)
qed

text \<open>
  C3 as stated fails: with tracking disabled and no request among the arguments the
  wrapper raises and the handler is never called.
\<close>

theorem load_aware_call_disabled_without_request:
  "load_aware_call (const_handler (Inr (OtherValue ''body''))) [OtherArg ()]
       (Map.empty :: (nat, unit) kwargs) untracked_state
     = (Inl (ValueError ''raw_request required when server load tracking is enabled'')
          :: exn + (string, unit hook_func, (nat, unit) arg) response,
        untracked_state)"
  by (simp add: load_aware_call_def load_aware_enter_def find_raw_request_def)

text \<open>
  Claim C4 (amended). In a tracked call the wrapper adds exactly one to the counter
  (created at 0 when absent) before it awaits the handler. When the handler raises an
  exception that derives from \<open>Exception\<close>, the wrapper subtracts exactly one from the
  counter as it stands then and raises the same exception again, so a handler that left
  the counter alone finds it restored. An exception that derives from \<open>BaseException\<close>
  only, such as the \<open>CancelledError\<close> of a cancelled task, passes through
  \<open>except Exception\<close>: it is raised again with the state as the handler left it.
\<close>

theorem load_aware_call_handler_raises:
  assumes "tracking_enabled st" and "find_raw_request args kwargs = RequestArg q"
    and "func args kwargs (snd (load_aware_enter args kwargs st)) = (Inl e, st2)"
    and "server_load_metrics st2 = Some c"
  shows "server_load_metrics (snd (load_aware_enter args kwargs st)) =
           Some ((case server_load_metrics st of None \<Rightarrow> 0 | Some c0 \<Rightarrow> c0) + 1) \<and>
         load_aware_call func args kwargs st =
           (Inl e, if is_Exception e then st2\<lparr>server_load_metrics := Some (c - 1)\<rparr> else st2)"
proof -
  have call: "load_aware_call func args kwargs st = load_aware_resume q (Inl e) st2"
    using assms(1-3) by (rule load_aware_call_tracked)
  have "load_aware_resume q (Inl e) st2 =
          (Inl e, if is_Exception e then st2\<lparr>server_load_metrics := Some (c - 1)\<rparr> else st2)"
    using assms(4) by (simp add: load_aware_resume_def add_server_load_def)
  with call show ?thesis
    using assms(1,2) by (simp add: load_aware_enter_tracked)
qed

text \<open>A handler that raises an \<open>Exception\<close> with the counter at 3: the counter is 3 again.\<close>

theorem load_aware_call_handler_raises_witness:
  "tracking_enabled (tracked_state 3) \<and>
   find_raw_request [] (raw_request_kwargs 0) = RequestArg 0 \<and>
   is_Exception (RaisedException ''boom'') \<and>
   load_aware_call (const_handler (Inl (RaisedException ''boom''))) [] (raw_request_kwargs 0)
       (tracked_state 3)
     = (Inl (RaisedException ''boom'')
          :: exn + (string, unit hook_func, (nat, unit) arg) response,
        tracked_state 3)"
proof -
  have on: "tracking_enabled (tracked_state 3)"
    by (simp add: tracked_state_def tracking_enabled_def)
  have run: "const_handler (Inl (RaisedException ''boom'')) [] (raw_request_kwargs 0)
               (snd (load_aware_enter [] (raw_request_kwargs 0) (tracked_state 3)))
             = (Inl (RaisedException ''boom'')
                  :: exn + (string, unit hook_func, (nat, unit) arg) response,
                tracked_state 4)"
    using sample_enter [of 0 3] by (simp add: const_handler_def)
  have c: "server_load_metrics (tracked_state 4) = Some 4"
    by (simp add: tracked_state_def)
  show ?thesis
    using on sample_request_found [of 0]
      load_aware_call_handler_raises
        [where func = "const_handler (Inl (RaisedException ''boom''))" and args = "[]"
           and kwargs = "raw_request_kwargs 0" and st = "tracked_state 3" and q = 0,
         OF on sample_request_found run c]
    by (simp add: tracked_state_def)
qed

text \<open>
  C4 as stated fails for a handler that raises \<open>CancelledError\<close>: the failure is
  re-raised but the counter stays at 4, one above its value before the call.
\<close>

theorem load_aware_call_cancelled_keeps_increment:
  "load_aware_call (const_handler (Inl CancelledError)) [] (raw_request_kwargs 0)
       (tracked_state 3)
     = (Inl CancelledError :: exn + (string, unit hook_func, (nat, unit) arg) response,
        tracked_state 4)"
  using sample_enter [of 0 3]
  by (simp add: load_aware_call_def load_aware_resume_def const_handler_def)

text \<open>
  Claim C5 (amended). In a tracked call whose handler returns a \<open>JSONResponse\<close> or a
  \<open>StreamingResponse\<close>, whatever hooks its background holds (none, a single task, or a
  collection), the response that \<open>load_aware_call\<close> returns carries all the original
  hooks in their original order, followed by the decrement hook as the last one; the
  counter is left as the handler left it, the decrement being the hook's to make. Any
  other return value, a response of another class with hooks of its own included, fails
  the \<open>isinstance\<close> test of line 123: it is returned as it is, no hook appended, and
  the counter is decremented at once.
\<close>

theorem load_aware_call_appends_decrement_hook:
  assumes "tracking_enabled st" and "find_raw_request args kwargs = RequestArg q"
    and "func args kwargs (snd (load_aware_enter args kwargs st)) = (Inr r, st2)"
  shows "(isinstance_JSON_or_Streaming r \<longrightarrow>
            (\<exists>r'. load_aware_call func args kwargs st = (Inr r', st2) \<and>
                  response_hooks r' = response_hooks r @ [decrement_task q])) \<and>
         (\<not> isinstance_JSON_or_Streaming r \<and> server_load_metrics st2 = Some c \<longrightarrow>
            load_aware_call func args kwargs st
              = (Inr r, st2\<lparr>server_load_metrics := Some (c - 1)\<rparr>))"
proof -
  have call: "load_aware_call func args kwargs st = load_aware_resume q (Inr r) st2"
    using assms by (rule load_aware_call_tracked)
  show ?thesis
  proof (cases r)
    case (JSONResponse b bg)
    then show ?thesis
      by (simp add: call load_aware_resume_def background_hooks_attach_decrement)
  next
    case (StreamingResponse b bg)
    then show ?thesis
      by (simp add: call load_aware_resume_def background_hooks_attach_decrement)
  next
    case (OtherResponse b bg)
    then show ?thesis
      by (simp add: call load_aware_resume_def add_server_load_def)
  next
    case NoneValue
    then show ?thesis
      by (simp add: call load_aware_resume_def add_server_load_def)
  next
    case (OtherValue b)
    then show ?thesis
      by (simp add: call load_aware_resume_def add_server_load_def)
  qed
qed

text \<open>
  A \<open>JSONResponse\<close> or \<open>StreamingResponse\<close> with no hook, with one hook, and with two;
  and a response of another class with two hooks, returned unchanged with the counter
  back at 0.
\<close>

theorem load_aware_call_appends_decrement_hook_witness:
  "tracking_enabled (tracked_state 0) \<and>
   find_raw_request [] (raw_request_kwargs 0) = RequestArg 0 \<and>
   (\<exists>r'. load_aware_call
            (const_handler
               (Inr (JSONResponse ''body''
                  (NoBackground :: (string hook_func, (nat, unit) arg) background))))
            [] (raw_request_kwargs 0) (tracked_state 0) = (Inr r', tracked_state 1) \<and>
          response_hooks r' = [decrement_task 0]) \<and>
   (\<exists>r'. load_aware_call (const_handler (Inr (StreamingResponse ''body'' (SingleTask log_hook))))
            [] (raw_request_kwargs 0) (tracked_state 0) = (Inr r', tracked_state 1) \<and>
          response_hooks r' = [log_hook, decrement_task 0]) \<and>
   (\<exists>r'. load_aware_call
            (const_handler (Inr (JSONResponse ''body'' (BackgroundTasks [log_hook, cleanup_hook]))))
            [] (raw_request_kwargs 0) (tracked_state 0) = (Inr r', tracked_state 1) \<and>
          response_hooks r' = [log_hook, cleanup_hook, decrement_task 0]) \<and>
   load_aware_call
     (const_handler (Inr (OtherResponse ''body'' (BackgroundTasks [log_hook, cleanup_hook]))))
     [] (raw_request_kwargs 0) (tracked_state 0)
     = (Inr (OtherResponse ''body'' (BackgroundTasks [log_hook, cleanup_hook])),
        tracked_state 0)"
proof -
  have on: "tracking_enabled (tracked_state 0)"
    by (simp add: tracked_state_def tracking_enabled_def)
  have run: "const_handler (Inr r) [] (raw_request_kwargs 0)
               (snd (load_aware_enter [] (raw_request_kwargs 0) (tracked_state 0)))
             = (Inr r, tracked_state 1)"
    for r :: "(string, string hook_func, (nat, unit) arg) response"
    using sample_enter [of 0 0] by (simp add: const_handler_def)
  have c: "server_load_metrics (tracked_state 1) = Some 1"
    by (simp add: tracked_state_def)
  have dec: "tracked_state 1\<lparr>server_load_metrics := Some (1 - 1)\<rparr> = tracked_state 0"
    by (simp add: tracked_state_def)
  have p1: "\<exists>r'. load_aware_call
            (const_handler
               (Inr (JSONResponse ''body''
                  (NoBackground :: (string hook_func, (nat, unit) arg) background))))
            [] (raw_request_kwargs 0) (tracked_state 0) = (Inr r', tracked_state 1) \<and>
          response_hooks r' = [decrement_task 0]"
    using load_aware_call_appends_decrement_hook
        [where func = "const_handler (Inr (JSONResponse ''body'' NoBackground))",
         OF on sample_request_found run]
    by simp
  have p2: "\<exists>r'. load_aware_call
            (const_handler (Inr (StreamingResponse ''body'' (SingleTask log_hook))))
            [] (raw_request_kwargs 0) (tracked_state 0) = (Inr r', tracked_state 1) \<and>
          response_hooks r' = [log_hook, decrement_task 0]"
    using load_aware_call_appends_decrement_hook
        [where func = "const_handler (Inr (StreamingResponse ''body'' (SingleTask log_hook)))",
         OF on sample_request_found run]
    by simp
  have p3: "\<exists>r'. load_aware_call
            (const_handler (Inr (JSONResponse ''body'' (BackgroundTasks [log_hook, cleanup_hook]))))
            [] (raw_request_kwargs 0) (tracked_state 0) = (Inr r', tracked_state 1) \<and>
          response_hooks r' = [log_hook, cleanup_hook, decrement_task 0]"
    using load_aware_call_appends_decrement_hook
        [where func = "const_handler
             (Inr (JSONResponse ''body'' (BackgroundTasks [log_hook, cleanup_hook])))",
         OF on sample_request_found run]
    by simp
  have p4: "load_aware_call
     (const_handler (Inr (OtherResponse ''body'' (BackgroundTasks [log_hook, cleanup_hook]))))
     [] (raw_request_kwargs 0) (tracked_state 0)
     = (Inr (OtherResponse ''body'' (BackgroundTasks [log_hook, cleanup_hook])),
        tracked_state 0)"
    using load_aware_call_appends_decrement_hook
        [where func = "const_handler
             (Inr (OtherResponse ''body'' (BackgroundTasks [log_hook, cleanup_hook])))"
           and c = 1,
         OF on sample_request_found run] c dec
    by simp
  show ?thesis
    using on sample_request_found [of 0] p1 p2 p3 p4 by blast
qed

text \<open>
  C5 as stated fails for a response that carries a hook and is neither a
  \<open>JSONResponse\<close> nor a \<open>StreamingResponse\<close>: its hook sequence is still the one hook it
  came with, and no decrement hook follows it.
\<close>

theorem load_aware_call_other_response_no_hook:
  "load_aware_call
     (const_handler (Inr (OtherResponse ''body'' (SingleTask log_hook))))
     [] (raw_request_kwargs 0) (tracked_state 0)
     = (Inr (OtherResponse ''body'' (SingleTask log_hook)), tracked_state 0) \<and>
   response_hooks
     (OtherResponse ''body'' (SingleTask log_hook)
        :: (string, string hook_func, (nat, unit) arg) response) = [log_hook]"
  using sample_enter [of 0 0]
  by (simp add: load_aware_call_def load_aware_resume_def const_handler_def
      add_server_load_def tracked_state_def)

text \<open>
  Claim C10. When a disconnect message is among the messages, \<open>listen_for_disconnect\<close>
  returns, and it decrements the counter exactly when tracking is enabled and the counter
  exists; otherwise it leaves the state untouched. The wrapper of \<open>load_aware_call\<close>
  lets a \<open>CancelledError\<close> through without touching the state. Together: for a tracked
  request the wrapper's increment, the listener's decrement and the cancellation of the
  handler leave the counter at its value before the request (0 when it was absent).
\<close>

theorem disconnect_decrement_rebalances:
  assumes "\<exists>m \<in> set msgs. msg_type m = ''http.disconnect''"
  shows "(\<exists>ms'. listen_for_disconnect st msgs =
            Some (Inr (),
                  if tracking_enabled st \<and> has_server_load_metrics st
                  then st\<lparr>server_load_metrics :=
                           map_option (\<lambda>c. c - 1) (server_load_metrics st)\<rparr>
                  else st,
                  ms')) \<and>
         load_aware_resume q (Inl CancelledError) st'
           = (Inl CancelledError :: exn + ('b, 'f hook_func, ('q, 'v) arg) response, st') \<and>
         (tracking_enabled st \<and>
          find_raw_request args (kwargs :: ('q, 'v) kwargs) = RequestArg q \<longrightarrow>
            (\<exists>st1 st2 ms'.
               load_aware_enter args kwargs st = (Inr (Tracked q), st1) \<and>
               server_load_metrics st1 =
                 Some ((case server_load_metrics st of None \<Rightarrow> 0 | Some c \<Rightarrow> c) + 1) \<and>
               listen_for_disconnect st1 msgs = Some (Inr (), st2, ms') \<and>
               load_aware_resume q (Inl CancelledError) st2
                 = (Inl CancelledError :: exn + ('b, 'f hook_func, ('q, 'v) arg) response,
                    st2) \<and>
               server_load_metrics st2 =
                 Some (case server_load_metrics st of None \<Rightarrow> 0 | Some c \<Rightarrow> c) \<and>
               enable_server_load_tracking st2 = enable_server_load_tracking st))"
proof (intro conjI impI)
  show "\<exists>ms'. listen_for_disconnect st msgs =
            Some (Inr (),
                  if tracking_enabled st \<and> has_server_load_metrics st
                  then st\<lparr>server_load_metrics :=
                           map_option (\<lambda>c. c - 1) (server_load_metrics st)\<rparr>
                  else st,
                  ms')"
    using assms by (rule listen_for_disconnect_returns)
next
  show "load_aware_resume q (Inl CancelledError) st'
           = (Inl CancelledError :: exn + ('b, 'f hook_func, ('q, 'v) arg) response, st')"
    by (simp add: load_aware_resume_def)
next
  assume tracked: "tracking_enabled st \<and> find_raw_request args kwargs = RequestArg q"
  define c0 where "c0 = (case server_load_metrics st of None \<Rightarrow> 0 | Some c \<Rightarrow> c)"
  define st1 where "st1 = st\<lparr>server_load_metrics := Some (c0 + 1)\<rparr>"
  have enter: "load_aware_enter args kwargs st = (Inr (Tracked q), st1)"
    using tracked by (simp add: load_aware_enter_tracked st1_def c0_def)
  have on: "tracking_enabled st1 \<and> has_server_load_metrics st1"
    using tracked by (simp add: st1_def tracking_enabled_def has_server_load_metrics_def)
  obtain ms' where listen:
    "listen_for_disconnect st1 msgs =
       Some (Inr (), st1\<lparr>server_load_metrics :=
                           map_option (\<lambda>c. c - 1) (server_load_metrics st1)\<rparr>, ms')"
    using listen_for_disconnect_returns [OF assms, of st1] on by auto
  define st2 where
    "st2 = st1\<lparr>server_load_metrics := map_option (\<lambda>c. c - 1) (server_load_metrics st1)\<rparr>"
  have "server_load_metrics st2 = Some c0"
    by (simp add: st2_def st1_def)
  moreover have "enable_server_load_tracking st2 = enable_server_load_tracking st"
    by (simp add: st2_def st1_def)
  moreover have "load_aware_resume q (Inl CancelledError) st2
      = (Inl CancelledError :: exn + ('b, 'f hook_func, ('q, 'v) arg) response, st2)"
    by (simp add: load_aware_resume_def)
  moreover have "server_load_metrics st1 = Some (c0 + 1)"
    by (simp add: st1_def)
  ultimately show "\<exists>st1 st2 ms'.
               load_aware_enter args kwargs st = (Inr (Tracked q), st1) \<and>
               server_load_metrics st1 =
                 Some ((case server_load_metrics st of None \<Rightarrow> 0 | Some c \<Rightarrow> c) + 1) \<and>
               listen_for_disconnect st1 msgs = Some (Inr (), st2, ms') \<and>
               load_aware_resume q (Inl CancelledError) st2
                 = (Inl CancelledError :: exn + ('b, 'f hook_func, ('q, 'v) arg) response,
                    st2) \<and>
               server_load_metrics st2 =
                 Some (case server_load_metrics st of None \<Rightarrow> 0 | Some c \<Rightarrow> c) \<and>
               enable_server_load_tracking st2 = enable_server_load_tracking st"
    using enter listen unfolding st2_def [symmetric] c0_def [symmetric] by blast
qed

text \<open>
  A request message followed by the disconnect: with tracking disabled the state is left
  alone, with the counter at 4 it becomes 3, and a tracked request that is cancelled on
  disconnect leaves a counter of 3 at 3.
\<close>

theorem disconnect_decrement_rebalances_witness:
  "(\<exists>m \<in> set [request_message, disconnect_message]. msg_type m = ''http.disconnect'') \<and>
   tracking_enabled (tracked_state 3) \<and>
   find_raw_request [] (raw_request_kwargs 0) = RequestArg 0 \<and>
   (\<exists>ms'. listen_for_disconnect untracked_state [request_message, disconnect_message]
            = Some (Inr (), untracked_state, ms')) \<and>
   (\<exists>ms'. listen_for_disconnect (tracked_state 4) [request_message, disconnect_message]
            = Some (Inr (), tracked_state 3, ms')) \<and>
   (\<exists>st1 st2 ms'.
      load_aware_enter [] (raw_request_kwargs 0) (tracked_state 3) = (Inr (Tracked 0), st1) \<and>
      server_load_metrics st1 = Some 4 \<and>
      listen_for_disconnect st1 [request_message, disconnect_message]
        = Some (Inr (), st2, ms') \<and>
      load_aware_resume (0::nat) (Inl CancelledError) st2
        = (Inl CancelledError :: exn + (string, string hook_func, (nat, unit) arg) response,
           st2) \<and>
      server_load_metrics st2 = Some 3)"
proof -
  have msgs: "\<exists>m \<in> set [request_message, disconnect_message]. msg_type m = ''http.disconnect''"
    by (simp add: disconnect_message_def)
  have on: "tracking_enabled (tracked_state n)" for n
    by (simp add: tracked_state_def tracking_enabled_def)
  have off: "\<not> tracking_enabled untracked_state"
    by (simp add: untracked_state_def tracking_enabled_def)
  have has: "has_server_load_metrics (tracked_state n)" for n
    by (simp add: tracked_state_def has_server_load_metrics_def)
  have dec: "tracked_state 4\<lparr>server_load_metrics :=
               map_option (\<lambda>c. c - 1) (server_load_metrics (tracked_state 4))\<rparr> = tracked_state 3"
    by (simp add: tracked_state_def)
  have c3: "server_load_metrics (tracked_state 3) = Some 3"
    by (simp add: tracked_state_def)
  note inst1 = disconnect_decrement_rebalances
      [OF msgs, where st = untracked_state and q = "0::nat" and args = "[]"
         and kwargs = "raw_request_kwargs 0"
         and st' = untracked_state, THEN conjunct1]
  note inst2 = disconnect_decrement_rebalances
      [OF msgs, where st = "tracked_state 4" and q = "0::nat" and args = "[]"
         and kwargs = "raw_request_kwargs 0"
         and st' = untracked_state, THEN conjunct1]
  note inst3 = disconnect_decrement_rebalances
      [OF msgs, where st = "tracked_state 3" and q = "0::nat" and args = "[]"
         and kwargs = "raw_request_kwargs 0"
         and st' = untracked_state, THEN conjunct2, THEN conjunct2, rule_format,
       OF conjI, OF on sample_request_found]
  have p1: "\<exists>ms'. listen_for_disconnect untracked_state [request_message, disconnect_message]
            = Some (Inr (), untracked_state, ms')"
    using inst1 off by simp
  have p2: "\<exists>ms'. listen_for_disconnect (tracked_state 4) [request_message, disconnect_message]
            = Some (Inr (), tracked_state 3, ms')"
    using inst2 on has dec by simp
  have p3: "\<exists>st1 st2 ms'.
      load_aware_enter [] (raw_request_kwargs 0) (tracked_state 3) = (Inr (Tracked 0), st1) \<and>
      server_load_metrics st1 = Some 4 \<and>
      listen_for_disconnect st1 [request_message, disconnect_message]
        = Some (Inr (), st2, ms') \<and>
      load_aware_resume (0::nat) (Inl CancelledError) st2
        = (Inl CancelledError :: exn + (string, string hook_func, (nat, unit) arg) response,
           st2) \<and>
      server_load_metrics st2 = Some 3"
    using inst3 [where ?'b = string and ?'f = string] unfolding c3
    by (simp del: listen_for_disconnect.simps) blast
  show ?thesis
    using msgs on sample_request_found [of 0] p1 p2 p3 by blast
qed

section \<open>The executors: lemmas\<close>

text \<open>
  With a driver worker in place, \<open>collective_rpc\<close> is one call on that worker: the call
  is dispatched and recorded, and the answer comes back as a one-element list.
\<close>

lemma collective_rpc_dispatch:
  assumes "driver_worker self = Some w"
  shows "collective_rpc run self m t as k =
           (case run (worker_state w) (RpcCall m as (case k of None \<Rightarrow> [] | Some x \<Rightarrow> x)) of
              (answer, s') \<Rightarrow>
                (case answer of Inl e \<Rightarrow> Inl e | Inr a \<Rightarrow> Inr [a],
                 self\<lparr>driver_worker :=
                   Some \<lparr>worker_state = s',
                         rpc_log = rpc_log w @
                           [RpcCall m as (case k of None \<Rightarrow> [] | Some x \<Rightarrow> x)]\<rparr>\<rparr>))"
  using assms
  by (simp add: collective_rpc_def run_method_def split: prod.splits sum.splits)

text \<open>
  Whatever the worker does, a bootstrap dispatches an initial part of the three calls, in
  order, and all three when it returns normally.
\<close>

lemma bootstrap_log:
  assumes "driver_worker self = Some w"
  shows "\<exists>w' n. driver_worker (snd (bootstrap run kwargs self)) = Some w' \<and>
           rpc_log w' = rpc_log w @ take n (bootstrap_calls kwargs) \<and>
           (fst (bootstrap run kwargs self) = Inr () \<longrightarrow> n = 3)"
proof -
  let ?c1 = "RpcCall (MethodName ''init_worker'') [InitKwargs [kwargs]] []"
  let ?c2 = "RpcCall (MethodName ''init_device'') [] []"
  let ?c3 = "RpcCall (MethodName ''load_model'') [] []"
  obtain r1 s1 where run1: "run (worker_state w) ?c1 = (r1, s1)" by fastforce
  obtain r2 s2 where run2: "run s1 ?c2 = (r2, s2)" by fastforce
  obtain r3 s3 where run3: "run s2 ?c3 = (r3, s3)" by fastforce
  define w1 where "w1 = \<lparr>worker_state = s1, rpc_log = rpc_log w @ [?c1]\<rparr>"
  define w2 where "w2 = \<lparr>worker_state = s2, rpc_log = rpc_log w1 @ [?c2]\<rparr>"
  define w3 where "w3 = \<lparr>worker_state = s3, rpc_log = rpc_log w2 @ [?c3]\<rparr>"
  have step1: "collective_rpc run self (MethodName ''init_worker'') None [InitKwargs [kwargs]] None
      = (case r1 of Inl e \<Rightarrow> Inl e | Inr a \<Rightarrow> Inr [a], self\<lparr>driver_worker := Some w1\<rparr>)"
    using collective_rpc_dispatch [OF assms, of run "MethodName ''init_worker''" None
        "[InitKwargs [kwargs]]" None] run1
    by (simp add: w1_def)
  have step2: "collective_rpc run (self\<lparr>driver_worker := Some w1\<rparr>) (MethodName ''init_device'')
        None [] None
      = (case r2 of Inl e \<Rightarrow> Inl e | Inr a \<Rightarrow> Inr [a], self\<lparr>driver_worker := Some w2\<rparr>)"
    using collective_rpc_dispatch [of "self\<lparr>driver_worker := Some w1\<rparr>" w1 run
        "MethodName ''init_device''" None "[]" None] run2
    by (simp add: w2_def w1_def)
  have step3: "collective_rpc run (self\<lparr>driver_worker := Some w2\<rparr>) (MethodName ''load_model'')
        None [] None
      = (case r3 of Inl e \<Rightarrow> Inl e | Inr a \<Rightarrow> Inr [a], self\<lparr>driver_worker := Some w3\<rparr>)"
    using collective_rpc_dispatch [of "self\<lparr>driver_worker := Some w2\<rparr>" w2 run
        "MethodName ''load_model''" None "[]" None] run3
    by (simp add: w3_def w2_def)
  show ?thesis
  proof (cases r1)
    case (Inl e)
    then have "bootstrap run kwargs self = (Inl e, self\<lparr>driver_worker := Some w1\<rparr>)"
      by (simp add: bootstrap_def step1)
    then show ?thesis
      by (intro exI [of _ w1] exI [of _ 1]) (simp add: w1_def bootstrap_calls_def)
  next
    case r1: (Inr a1)
    show ?thesis
    proof (cases r2)
      case (Inl e)
      then have "bootstrap run kwargs self = (Inl e, self\<lparr>driver_worker := Some w2\<rparr>)"
        using r1 by (simp add: bootstrap_def step1 step2)
      then show ?thesis
        by (intro exI [of _ w2] exI [of _ 2]) (simp add: w2_def w1_def bootstrap_calls_def)
    next
      case r2: (Inr a2)
      have "snd (bootstrap run kwargs self) = self\<lparr>driver_worker := Some w3\<rparr>"
        using r1 r2 by (simp add: bootstrap_def step1 step2 step3 split: sum.splits)
      then show ?thesis
        by (intro exI [of _ w3] exI [of _ 3])
           (simp add: w3_def w2_def w1_def bootstrap_calls_def)
    qed
  qed
qed

text \<open>With a worker that never raises, the bootstrap returns.\<close>

lemma bootstrap_returns:
  assumes "driver_worker self = Some w" and "never_raises run"
  shows "fst (bootstrap run kwargs self) = Inr ()"
proof -
  have ok: "\<And>s call. \<exists>a s'. run s call = (Inr a, s')"
    using assms(2) by (simp add: never_raises_def)
  let ?c1 = "RpcCall (MethodName ''init_worker'') [InitKwargs [kwargs]] []"
  let ?c2 = "RpcCall (MethodName ''init_device'') [] []"
  let ?c3 = "RpcCall (MethodName ''load_model'') [] []"
  obtain a1 s1 where run1: "run (worker_state w) ?c1 = (Inr a1, s1)" using ok by blast
  obtain a2 s2 where run2: "run s1 ?c2 = (Inr a2, s2)" using ok by blast
  obtain a3 s3 where run3: "run s2 ?c3 = (Inr a3, s3)" using ok by blast
  show ?thesis
    using assms(1) run1 run2 run3
    by (simp add: bootstrap_def collective_rpc_def run_method_def)
qed

lemma echo_worker_never_raises: "never_raises echo_worker"
  unfolding never_raises_def
proof (intro allI)
  fix s call
  show "\<exists>a s'. echo_worker s call = (Inr a, s')"
    by (cases "call_method call") (simp_all add: echo_worker_def)
qed

text \<open>A rank's own report together with its peers' reports is the whole group's.\<close>

lemma set_own_and_peers:
  assumes "r < length reports"
  shows "set (reports ! r # peers_of reports r) = set reports"
proof -
  have "reports = take r reports @ reports ! r # drop (Suc r) reports"
    using assms by (rule id_take_nth_drop)
  then have "set reports = set (take r reports @ reports ! r # drop (Suc r) reports)"
    by simp
  then show ?thesis
    by (auto simp: peers_of_def)
qed

text \<open>The reduction gives every rank the minimum over the whole group.\<close>

lemma all_reduce_MIN_is_Min:
  assumes "r < length reports"
  shows "all_reduce_MIN (f (reports ! r)) (map f (peers_of reports r)) = Min (f ` set reports)"
proof -
  have "all_reduce_MIN (f (reports ! r)) (map f (peers_of reports r))
          = min_list (map f (reports ! r # peers_of reports r))"
    by (simp add: all_reduce_MIN_def)
  also have "\<dots> = Min (set (map f (reports ! r # peers_of reports r)))"
    by (rule min_list_Min) simp
  also have "\<dots> = Min (f ` set reports)"
    using set_own_and_peers [OF assms] by (metis set_map)
  finally show ?thesis .
qed

text \<open>
  The bootstrap is the reference run of the three calls on the driver worker: same
  outcome, same final worker state, and the calls made are appended to the log.
\<close>

lemma bootstrap_run_calls:
  assumes "driver_worker self = Some w"
  shows "bootstrap run kwargs self =
           (case run_calls run (worker_state w) (bootstrap_calls kwargs) of
              (r, s', made) \<Rightarrow>
                (r, self\<lparr>driver_worker :=
                          Some \<lparr>worker_state = s', rpc_log = rpc_log w @ made\<rparr>\<rparr>))"
proof -
  let ?c1 = "RpcCall (MethodName ''init_worker'') [InitKwargs [kwargs]] []"
  let ?c2 = "RpcCall (MethodName ''init_device'') [] []"
  let ?c3 = "RpcCall (MethodName ''load_model'') [] []"
  obtain r1 s1 where run1: "run (worker_state w) ?c1 = (r1, s1)" by fastforce
  obtain r2 s2 where run2: "run s1 ?c2 = (r2, s2)" by fastforce
  obtain r3 s3 where run3: "run s2 ?c3 = (r3, s3)" by fastforce
  define w1 where "w1 = \<lparr>worker_state = s1, rpc_log = rpc_log w @ [?c1]\<rparr>"
  define w2 where "w2 = \<lparr>worker_state = s2, rpc_log = rpc_log w @ [?c1, ?c2]\<rparr>"
  define w3 where "w3 = \<lparr>worker_state = s3, rpc_log = rpc_log w @ [?c1, ?c2, ?c3]\<rparr>"
  have step1: "collective_rpc run self (MethodName ''init_worker'') None [InitKwargs [kwargs]] None
      = (case r1 of Inl e \<Rightarrow> Inl e | Inr a \<Rightarrow> Inr [a], self\<lparr>driver_worker := Some w1\<rparr>)"
    using collective_rpc_dispatch [OF assms, of run "MethodName ''init_worker''" None
        "[InitKwargs [kwargs]]" None] run1
    by (simp add: w1_def)
  have step2: "collective_rpc run (self\<lparr>driver_worker := Some w1\<rparr>) (MethodName ''init_device'')
        None [] None
      = (case r2 of Inl e \<Rightarrow> Inl e | Inr a \<Rightarrow> Inr [a], self\<lparr>driver_worker := Some w2\<rparr>)"
    using collective_rpc_dispatch [of "self\<lparr>driver_worker := Some w1\<rparr>" w1 run
        "MethodName ''init_device''" None "[]" None] run2
    by (simp add: w2_def w1_def)
  have step3: "collective_rpc run (self\<lparr>driver_worker := Some w2\<rparr>) (MethodName ''load_model'')
        None [] None
      = (case r3 of Inl e \<Rightarrow> Inl e | Inr a \<Rightarrow> Inr [a], self\<lparr>driver_worker := Some w3\<rparr>)"
    using collective_rpc_dispatch [of "self\<lparr>driver_worker := Some w2\<rparr>" w2 run
        "MethodName ''load_model''" None "[]" None] run3
    by (simp add: w3_def w2_def)
  show ?thesis
  proof (cases r1)
    case (Inl e)
    then show ?thesis
      using run1 by (simp add: bootstrap_def step1 bootstrap_calls_def w1_def)
  next
    case r1: (Inr a1)
    show ?thesis
    proof (cases r2)
      case (Inl e)
      then show ?thesis
        using r1 run1 run2
        by (simp add: bootstrap_def step1 step2 bootstrap_calls_def w2_def)
    next
      case r2: (Inr a2)
      show ?thesis
      proof (cases r3)
        case (Inl e)
        then show ?thesis
          using r1 r2 run1 run2 run3
          by (simp add: bootstrap_def step1 step2 step3 bootstrap_calls_def w3_def)
      next
        case (Inr a3)
        then show ?thesis
          using r1 r2 run1 run2 run3
          by (simp add: bootstrap_def step1 step2 step3 bootstrap_calls_def w3_def)
      qed
    qed
  qed
qed

section \<open>The executors: results\<close>

text \<open>
  Claim C6. \<open>UniProcExecutor._init_executor\<close> creates the driver worker and then is
  exactly the run, on that worker, of \<open>init_worker\<close> (with the kwargs of rank 0, driver,
  and the local rank of the device), \<open>init_device\<close> and \<open>load_model\<close>, in that order,
  each on the state its predecessor left, stopping at the first call that raises: the
  outcome, the worker's final state and the calls made are those of that run. So the
  calls made are an initial part of the three, each at most once, and all three, each
  exactly once, when the method returns normally; it does return normally when the
  worker never raises and the device index, if any, is an integer. When the device index
  is not an integer the method raises before any call. \<open>collective_rpc\<close> on an executor
  with a driver worker is one call on that worker: it returns the one-element list of
  what the call returns, raises what the call raises, and leaves the worker in the state
  the call left.
\<close>

theorem uniproc_bootstrap_and_rpc:
  "UniProcExecutor_init_executor run py_int w0 init_method cfg self =
     (case local_rank_of py_int cfg of
        Inl e \<Rightarrow>
          (Inl e, self\<lparr>driver_worker := Some \<lparr>worker_state = w0, rpc_log = []\<rparr>\<rparr>)
      | Inr local_rank \<Rightarrow>
          (case run_calls run w0
                  (bootstrap_calls
                     \<lparr>kw_vllm_config = cfg, kw_local_rank = local_rank, kw_rank = 0,
                      kw_distributed_init_method = init_method,
                      kw_is_driver_worker = True\<rparr>) of
             (r, s', made) \<Rightarrow>
               (r, self\<lparr>driver_worker := Some \<lparr>worker_state = s', rpc_log = made\<rparr>\<rparr>))) \<and>
   (\<exists>w' n kwargs.
      driver_worker (snd (UniProcExecutor_init_executor run py_int w0 init_method cfg self))
        = Some w' \<and>
      kw_rank kwargs = 0 \<and> kw_is_driver_worker kwargs \<and>
      rpc_log w' = take n (bootstrap_calls kwargs) \<and>
      (fst (UniProcExecutor_init_executor run py_int w0 init_method cfg self) = Inr ()
         \<longrightarrow> n = 3)) \<and>
   (never_raises run \<and> local_rank_of py_int cfg = Inr lr \<longrightarrow>
      fst (UniProcExecutor_init_executor run py_int w0 init_method cfg self) = Inr ()) \<and>
   (driver_worker self = Some w \<longrightarrow>
      collective_rpc run self meth tmo args kwargs' =
        (case run (worker_state w)
                (RpcCall meth args (case kwargs' of None \<Rightarrow> [] | Some k \<Rightarrow> k)) of
           (answer, s') \<Rightarrow>
             (case answer of Inl e \<Rightarrow> Inl e | Inr a \<Rightarrow> Inr [a],
              self\<lparr>driver_worker :=
                Some \<lparr>worker_state = s',
                      rpc_log = rpc_log w @
                        [RpcCall meth args
                           (case kwargs' of None \<Rightarrow> [] | Some k \<Rightarrow> k)]\<rparr>\<rparr>)))"
proof (intro conjI impI)
  define self1 where "self1 = self\<lparr>driver_worker := Some (WorkerWrapperBase w0)\<rparr>"
  have dw: "driver_worker self1 = Some (WorkerWrapperBase w0)"
    by (simp add: self1_def)
  show "UniProcExecutor_init_executor run py_int w0 init_method cfg self =
     (case local_rank_of py_int cfg of
        Inl e \<Rightarrow>
          (Inl e, self\<lparr>driver_worker := Some \<lparr>worker_state = w0, rpc_log = []\<rparr>\<rparr>)
      | Inr local_rank \<Rightarrow>
          (case run_calls run w0
                  (bootstrap_calls
                     \<lparr>kw_vllm_config = cfg, kw_local_rank = local_rank, kw_rank = 0,
                      kw_distributed_init_method = init_method,
                      kw_is_driver_worker = True\<rparr>) of
             (r, s', made) \<Rightarrow>
               (r, self\<lparr>driver_worker := Some \<lparr>worker_state = s', rpc_log = made\<rparr>\<rparr>)))"
  proof (cases "local_rank_of py_int cfg")
    case (Inl e)
    then show ?thesis
      by (simp add: UniProcExecutor_init_executor_def WorkerWrapperBase_def)
  next
    case (Inr local_rank)
    then show ?thesis
      using bootstrap_run_calls [OF dw, of run]
      by (simp add: UniProcExecutor_init_executor_def WorkerWrapperBase_def self1_def
          split: prod.splits)
  qed
  show "\<exists>w' n kwargs.
      driver_worker (snd (UniProcExecutor_init_executor run py_int w0 init_method cfg self))
        = Some w' \<and>
      kw_rank kwargs = 0 \<and> kw_is_driver_worker kwargs \<and>
      rpc_log w' = take n (bootstrap_calls kwargs) \<and>
      (fst (UniProcExecutor_init_executor run py_int w0 init_method cfg self) = Inr ()
         \<longrightarrow> n = 3)"
  proof (cases "local_rank_of py_int cfg")
    case (Inl e)
    then have "UniProcExecutor_init_executor run py_int w0 init_method cfg self = (Inl e, self1)"
      by (simp add: UniProcExecutor_init_executor_def self1_def)
    then show ?thesis
      by (intro exI [of _ "WorkerWrapperBase w0"] exI [of _ 0]
            exI [of _ "\<lparr>kw_vllm_config = cfg, kw_local_rank = 0, kw_rank = 0,
                kw_distributed_init_method = init_method, kw_is_driver_worker = True\<rparr>"])
         (simp add: self1_def WorkerWrapperBase_def)
  next
    case (Inr local_rank)
    define kw where "kw = \<lparr>kw_vllm_config = cfg, kw_local_rank = local_rank, kw_rank = 0,
                kw_distributed_init_method = init_method, kw_is_driver_worker = True\<rparr>"
    have eq: "UniProcExecutor_init_executor run py_int w0 init_method cfg self
                = bootstrap run kw self1"
      using Inr
      by (simp add: UniProcExecutor_init_executor_def self1_def kw_def)
    obtain w' n where "driver_worker (snd (bootstrap run kw self1)) = Some w'"
      and "rpc_log w' = rpc_log (WorkerWrapperBase w0 :: ('a, 'b, 'c) worker_handle)
              @ take n (bootstrap_calls kw)"
      and "fst (bootstrap run kw self1) = Inr () \<longrightarrow> n = 3"
      using bootstrap_log [OF dw, of run kw] by blast
    then show ?thesis
      unfolding eq
      by (intro exI [of _ w'] exI [of _ n] exI [of _ kw])
         (simp add: WorkerWrapperBase_def kw_def)
  qed
next
  assume a: "never_raises run \<and> local_rank_of py_int cfg = Inr lr"
  define self1 where "self1 = self\<lparr>driver_worker := Some (WorkerWrapperBase w0)\<rparr>"
  have dw: "driver_worker self1 = Some (WorkerWrapperBase w0)"
    by (simp add: self1_def)
  define kw where "kw = \<lparr>kw_vllm_config = cfg, kw_local_rank = lr, kw_rank = 0,
                kw_distributed_init_method = init_method, kw_is_driver_worker = True\<rparr>"
  have eq: "UniProcExecutor_init_executor run py_int w0 init_method cfg self
                = bootstrap run kw self1"
    using a
    by (simp add: UniProcExecutor_init_executor_def self1_def kw_def)
  show "fst (UniProcExecutor_init_executor run py_int w0 init_method cfg self) = Inr ()"
    unfolding eq using dw a by (simp add: bootstrap_returns)
next
  assume "driver_worker self = Some w"
  then show "collective_rpc run self meth tmo args kwargs' =
        (case run (worker_state w)
                (RpcCall meth args (case kwargs' of None \<Rightarrow> [] | Some k \<Rightarrow> k)) of
           (answer, s') \<Rightarrow>
             (case answer of Inl e \<Rightarrow> Inl e | Inr a \<Rightarrow> Inr [a],
              self\<lparr>driver_worker :=
                Some \<lparr>worker_state = s',
                      rpc_log = rpc_log w @
                        [RpcCall meth args
                           (case kwargs' of None \<Rightarrow> [] | Some k \<Rightarrow> k)]\<rparr>\<rparr>))"
    by (rule collective_rpc_dispatch)
qed

text \<open>
  The bootstrap on device \<open>cuda:1\<close>: with a worker that answers every call the worker
  has served three calls; with a worker whose \<open>init_device\<close> raises the bootstrap stops
  after two calls with that exception. And one \<open>collective_rpc\<close>.
\<close>

theorem uniproc_bootstrap_and_rpc_witness:
  "never_raises echo_worker \<and>
   local_rank_of sample_int cuda1_config = Inr 1 \<and>
   driver_worker ready_executor = Some (WorkerWrapperBase 0) \<and>
   UniProcExecutor_init_executor echo_worker sample_int 0 ''tcp://127.0.0.1:29500''
       cuda1_config new_executor
     = (Inr (),
        new_executor\<lparr>driver_worker :=
          Some \<lparr>worker_state = 3, rpc_log = bootstrap_calls cuda1_kwargs\<rparr>\<rparr>) \<and>
   UniProcExecutor_init_executor (picky_worker [''init_device'']) sample_int 0
       ''tcp://127.0.0.1:29500'' cuda1_config new_executor
     = (Inl (RaisedException ''init_device''),
        new_executor\<lparr>driver_worker :=
          Some \<lparr>worker_state = 2, rpc_log = take 2 (bootstrap_calls cuda1_kwargs)\<rparr>\<rparr>) \<and>
   collective_rpc echo_worker ready_executor (MethodName ''execute_model'') None [] None
     = (Inr [''execute_model''],
        ready_executor\<lparr>driver_worker :=
          Some \<lparr>worker_state = 1,
                rpc_log = [RpcCall (MethodName ''execute_model'') [] []]\<rparr>\<rparr>)"
proof -
  have lr: "local_rank_of sample_int cuda1_config = Inr 1"
    by (simp add: local_rank_of_def cuda1_config_def sample_int_def int_of_str_def)
  have dw: "driver_worker ready_executor = Some (WorkerWrapperBase 0)"
    by (simp add: ready_executor_def)
  have ok: "UniProcExecutor_init_executor echo_worker sample_int 0 ''tcp://127.0.0.1:29500''
       cuda1_config new_executor
     = (Inr (),
        new_executor\<lparr>driver_worker :=
          Some \<lparr>worker_state = 3, rpc_log = bootstrap_calls cuda1_kwargs\<rparr>\<rparr>)"
    using uniproc_bootstrap_and_rpc
        [where run = echo_worker and py_int = sample_int and ?w0.0 = 0
           and init_method = "''tcp://127.0.0.1:29500''" and cfg = cuda1_config
           and self = new_executor, THEN conjunct1]
    by (simp add: lr cuda1_kwargs_def [symmetric])
       (simp add: bootstrap_calls_def echo_worker_def)
  have stop: "UniProcExecutor_init_executor (picky_worker [''init_device'']) sample_int 0
       ''tcp://127.0.0.1:29500'' cuda1_config new_executor
     = (Inl (RaisedException ''init_device''),
        new_executor\<lparr>driver_worker :=
          Some \<lparr>worker_state = 2, rpc_log = take 2 (bootstrap_calls cuda1_kwargs)\<rparr>\<rparr>)"
    using uniproc_bootstrap_and_rpc
        [where run = "picky_worker [''init_device'']" and py_int = sample_int and ?w0.0 = 0
           and init_method = "''tcp://127.0.0.1:29500''" and cfg = cuda1_config
           and self = new_executor, THEN conjunct1]
    by (simp add: lr cuda1_kwargs_def [symmetric])
       (simp add: bootstrap_calls_def picky_worker_def)
  have rpc: "collective_rpc echo_worker ready_executor (MethodName ''execute_model'') None [] None
     = (Inr [''execute_model''],
        ready_executor\<lparr>driver_worker :=
          Some \<lparr>worker_state = 1,
                rpc_log = [RpcCall (MethodName ''execute_model'') [] []]\<rparr>\<rparr>)"
    using uniproc_bootstrap_and_rpc
        [where run = echo_worker and self = ready_executor and w = "WorkerWrapperBase 0"
           and meth = "MethodName ''execute_model''" and tmo = None and args = "[]"
           and kwargs' = None and py_int = sample_int and ?w0.0 = 0 and cfg = cuda1_config,
         THEN conjunct2, THEN conjunct2, THEN conjunct2, rule_format, OF dw]
    by (simp add: WorkerWrapperBase_def echo_worker_def)
  show ?thesis
    using echo_worker_never_raises lr dw ok stop rpc by blast
qed

text \<open>
  Claim C7. In a group of ranks whose local reports all fit 64 signed bits,
  \<open>determine_num_available_blocks\<close> returns on every rank the same pair: the minimum of
  the device-block counts of all ranks and the minimum of their host-block counts, each
  reduced on its own. For the reports \<open>[(10,20), (8,25), (9,22)]\<close> that is \<open>(8,20)\<close> on each
  of the three ranks.
\<close>

theorem determine_num_available_blocks_min:
  assumes "r < length reports"
    and "\<forall>p \<in> set reports. fits_int64 (fst p) \<and> fits_int64 (snd p)"
  shows "rank_result reports r = Inr (Min (fst ` set reports), Min (snd ` set reports))"
proof -
  obtain a b where ab: "reports ! r = (a, b)" by fastforce
  have "(a, b) \<in> set reports"
    using assms(1) ab by (metis nth_mem)
  then have "fits_int64 a" and "fits_int64 b"
    using assms(2) by auto
  then have ta: "torch_tensor_int64 a = Inr a" and tb: "torch_tensor_int64 b = Inr b"
    by (simp_all add: torch_tensor_int64_def)
  have "rank_result reports r =
          Inr (all_reduce_MIN a (map fst (peers_of reports r)),
               all_reduce_MIN b (map snd (peers_of reports r)))"
    by (simp add: rank_result_def determine_num_available_blocks_def ab ta tb)
  moreover have "all_reduce_MIN a (map fst (peers_of reports r)) = Min (fst ` set reports)"
    using all_reduce_MIN_is_Min [OF assms(1), of fst] ab by simp
  moreover have "all_reduce_MIN b (map snd (peers_of reports r)) = Min (snd ` set reports)"
    using all_reduce_MIN_is_Min [OF assms(1), of snd] ab by simp
  ultimately show ?thesis by simp
qed

text \<open>The three ranks of the example.\<close>

theorem determine_num_available_blocks_min_witness:
  "rank_result [(10, 20), (8, 25), (9, 22)] 0 = Inr (8, 20) \<and>
   rank_result [(10, 20), (8, 25), (9, 22)] 1 = Inr (8, 20) \<and>
   rank_result [(10, 20), (8, 25), (9, 22)] 2 = Inr (8, 20)"
proof -
  let ?reports = "[(10, 20), (8, 25), (9, 22)] :: (int \<times> int) list"
  have fits: "\<forall>p \<in> set ?reports. fits_int64 (fst p) \<and> fits_int64 (snd p)"
    by (simp add: fits_int64_def)
  have len: "0 < length ?reports" "1 < length ?reports" "2 < length ?reports"
    by simp_all
  show ?thesis
    using determine_num_available_blocks_min [OF len(1) fits]
      determine_num_available_blocks_min [OF len(2) fits]
      determine_num_available_blocks_min [OF len(3) fits]
    by simp
qed

text \<open>
  Claim C8. With a delay factor other than zero,
  \<open>ExecutorWithExternalLauncher._init_executor\<close> fails with an \<open>AssertionError\<close> and
  leaves the executor exactly as it found it: no worker handle has been created and no
  call has been dispatched.
\<close>

theorem external_launcher_delay_factor_rejected:
  assumes "delay_factor cfg \<noteq> 0"
  shows "\<exists>msg. ExecutorWithExternalLauncher_init_executor run py_int w0 env cfg self
           = (Inl (AssertionError msg), self)"
proof -
  have "ExecutorWithExternalLauncher_init_executor run py_int w0 env cfg self
          = (Inl (AssertionError ''ExecutorWithExternalLauncher needs deterministic execution''),
             self)"
    using assms by (simp add: ExecutorWithExternalLauncher_init_executor_def)
  then show ?thesis by blast
qed

text \<open>A delay factor of 0.5 on an executor that has no worker yet.\<close>

theorem external_launcher_delay_factor_rejected_witness:
  "delay_factor half_delay_config \<noteq> 0 \<and>
   (\<exists>msg. ExecutorWithExternalLauncher_init_executor echo_worker sample_int 0 launcher_env
             half_delay_config new_executor
           = (Inl (AssertionError msg), new_executor)) \<and>
   driver_worker new_executor = None"
proof -
  have d: "delay_factor half_delay_config \<noteq> 0"
    by (simp add: half_delay_config_def)
  show ?thesis
    using d external_launcher_delay_factor_rejected
        [OF d, of echo_worker sample_int 0 launcher_env new_executor]
    by (simp add: new_executor_def)
qed

text \<open>
  Claim C9 (amended). \<open>reinitialize_distributed\<close> calls the worker's method of the same
  name first. When that call raises, the exception is raised on and \<open>shutdown\<close> is not
  called: the lifecycle is as before. When it returns and the request carries the shutdown
  sentinel, \<open>shutdown\<close> is called on the executor as the worker left it, so that the
  executor is in SHUTDOWN; when it returns and the request carries another rank, the
  lifecycle is as before. \<open>collective_rpc\<close> reads no lifecycle state: after the shutdown
  a call is still dispatched to the driver worker, and returns the one-element list of the
  worker's answer or raises what the worker raises.
\<close>

theorem reinitialize_shutdown_then_rpc:
  assumes "driver_worker self = Some w"
  shows "(run (worker_state w)
            (RpcCall (MethodName ''reinitialize_distributed'') [ReconfigureArg req] [])
            = (Inr a, s') \<and>
          new_data_parallel_rank req = SHUTDOWN_CURRENT_RANK \<longrightarrow>
            (\<exists>self' w'.
               reinitialize_distributed run self req = (Inr (), self') \<and>
               self' = self\<lparr>driver_worker := Some w', lifecycle := SHUTDOWN\<rparr> \<and>
               lifecycle self' = SHUTDOWN \<and>
               driver_worker self' = Some w' \<and>
               worker_state w' = s' \<and>
               rpc_log w' = rpc_log w @
                 [RpcCall (MethodName ''reinitialize_distributed'') [ReconfigureArg req] []] \<and>
               (\<forall>meth tmo args kwargs.
                  fst (collective_rpc run self' meth tmo args kwargs) =
                    (case fst (run s'
                            (RpcCall meth args
                               (case kwargs of None \<Rightarrow> [] | Some k \<Rightarrow> k))) of
                       Inl e \<Rightarrow> Inl e
                     | Inr answer \<Rightarrow> Inr [answer]) \<and>
                  (\<exists>w''. driver_worker (snd (collective_rpc run self' meth tmo args kwargs))
                           = Some w'' \<and>
                         worker_state w'' =
                           snd (run s'
                             (RpcCall meth args
                                (case kwargs of None \<Rightarrow> [] | Some k \<Rightarrow> k))) \<and>
                         rpc_log w'' = rpc_log w' @
                           [RpcCall meth args
                              (case kwargs of None \<Rightarrow> [] | Some k \<Rightarrow> k)])))) \<and>
         (run (worker_state w)
            (RpcCall (MethodName ''reinitialize_distributed'') [ReconfigureArg req] [])
            = (Inl e, s') \<longrightarrow>
            reinitialize_distributed run self req =
              (Inl e,
               self\<lparr>driver_worker :=
                 Some \<lparr>worker_state = s',
                       rpc_log = rpc_log w @
                         [RpcCall (MethodName ''reinitialize_distributed'')
                            [ReconfigureArg req] []]\<rparr>\<rparr>)) \<and>
         (run (worker_state w)
            (RpcCall (MethodName ''reinitialize_distributed'') [ReconfigureArg req] [])
            = (Inr a, s') \<and>
          new_data_parallel_rank req \<noteq> SHUTDOWN_CURRENT_RANK \<longrightarrow>
            reinitialize_distributed run self req =
              (Inr (),
               self\<lparr>driver_worker :=
                 Some \<lparr>worker_state = s',
                       rpc_log = rpc_log w @
                         [RpcCall (MethodName ''reinitialize_distributed'')
                            [ReconfigureArg req] []]\<rparr>\<rparr>))"
proof (intro conjI impI)
  let ?call = "RpcCall (MethodName ''reinitialize_distributed'') [ReconfigureArg req] []"
  assume h: "run (worker_state w) ?call = (Inr a, s') \<and>
          new_data_parallel_rank req = SHUTDOWN_CURRENT_RANK"
  define w' where "w' = \<lparr>worker_state = s', rpc_log = rpc_log w @ [?call]\<rparr>"
  define self' where "self' = self\<lparr>driver_worker := Some w', lifecycle := SHUTDOWN\<rparr>"
  have reinit: "reinitialize_distributed run self req = (Inr (), self')"
    using assms h
    by (simp add: reinitialize_distributed_def run_method_def shutdown_def self'_def w'_def)
  have dw: "driver_worker self' = Some w'"
    by (simp add: self'_def)
  have rpc: "fst (collective_rpc run self' meth tmo args kwargs) =
                (case fst (run s'
                        (RpcCall meth args (case kwargs of None \<Rightarrow> [] | Some k \<Rightarrow> k))) of
                   Inl e \<Rightarrow> Inl e
                 | Inr answer \<Rightarrow> Inr [answer]) \<and>
              (\<exists>w''. driver_worker (snd (collective_rpc run self' meth tmo args kwargs))
                       = Some w'' \<and>
                     worker_state w'' =
                       snd (run s'
                         (RpcCall meth args (case kwargs of None \<Rightarrow> [] | Some k \<Rightarrow> k))) \<and>
                     rpc_log w'' = rpc_log w' @
                       [RpcCall meth args (case kwargs of None \<Rightarrow> [] | Some k \<Rightarrow> k)])"
    for meth tmo args kwargs
    by (simp add: collective_rpc_dispatch [OF dw] w'_def split: prod.splits)
  show "\<exists>self' w'.
               reinitialize_distributed run self req = (Inr (), self') \<and>
               self' = self\<lparr>driver_worker := Some w', lifecycle := SHUTDOWN\<rparr> \<and>
               lifecycle self' = SHUTDOWN \<and>
               driver_worker self' = Some w' \<and>
               worker_state w' = s' \<and>
               rpc_log w' = rpc_log w @
                 [RpcCall (MethodName ''reinitialize_distributed'') [ReconfigureArg req] []] \<and>
               (\<forall>meth tmo args kwargs.
                  fst (collective_rpc run self' meth tmo args kwargs) =
                    (case fst (run s'
                            (RpcCall meth args
                               (case kwargs of None \<Rightarrow> [] | Some k \<Rightarrow> k))) of
                       Inl e \<Rightarrow> Inl e
                     | Inr answer \<Rightarrow> Inr [answer]) \<and>
                  (\<exists>w''. driver_worker (snd (collective_rpc run self' meth tmo args kwargs))
                           = Some w'' \<and>
                         worker_state w'' =
                           snd (run s'
                             (RpcCall meth args
                                (case kwargs of None \<Rightarrow> [] | Some k \<Rightarrow> k))) \<and>
                         rpc_log w'' = rpc_log w' @
                           [RpcCall meth args
                              (case kwargs of None \<Rightarrow> [] | Some k \<Rightarrow> k)]))"
    using reinit dw rpc by (intro exI [of _ self'] exI [of _ w']) (simp add: self'_def w'_def)
next
  assume "run (worker_state w)
            (RpcCall (MethodName ''reinitialize_distributed'') [ReconfigureArg req] [])
            = (Inl e, s')"
  then show "reinitialize_distributed run self req =
              (Inl e,
               self\<lparr>driver_worker :=
                 Some \<lparr>worker_state = s',
                       rpc_log = rpc_log w @
                         [RpcCall (MethodName ''reinitialize_distributed'')
                            [ReconfigureArg req] []]\<rparr>\<rparr>)"
    using assms by (simp add: reinitialize_distributed_def run_method_def)
next
  assume "run (worker_state w)
            (RpcCall (MethodName ''reinitialize_distributed'') [ReconfigureArg req] [])
            = (Inr a, s') \<and>
          new_data_parallel_rank req \<noteq> SHUTDOWN_CURRENT_RANK"
  then show "reinitialize_distributed run self req =
              (Inr (),
               self\<lparr>driver_worker :=
                 Some \<lparr>worker_state = s',
                       rpc_log = rpc_log w @
                         [RpcCall (MethodName ''reinitialize_distributed'')
                            [ReconfigureArg req] []]\<rparr>\<rparr>)"
    using assms by (simp add: reinitialize_distributed_def run_method_def)
qed

text \<open>
  An executor whose worker answers every call: shut down, then called once more. And an
  executor whose worker raises in \<open>reinitialize_distributed\<close>: the shutdown request
  leaves it READY.
\<close>

theorem reinitialize_shutdown_then_rpc_witness:
  "driver_worker ready_executor = Some (WorkerWrapperBase 0) \<and>
   echo_worker 0 (RpcCall (MethodName ''reinitialize_distributed'')
                    [ReconfigureArg shutdown_request] [])
     = (Inr ''reinitialize_distributed'', 1) \<and>
   new_data_parallel_rank shutdown_request = SHUTDOWN_CURRENT_RANK \<and>
   (\<exists>self'. reinitialize_distributed echo_worker ready_executor shutdown_request
              = (Inr (), self') \<and>
            lifecycle self' = SHUTDOWN \<and>
            fst (collective_rpc echo_worker self' (MethodName ''execute_model'') None [] None)
              = Inr [''execute_model'']) \<and>
   picky_worker [''reinitialize_distributed''] 0
       (RpcCall (MethodName ''reinitialize_distributed'') [ReconfigureArg shutdown_request] [])
     = (Inl (RaisedException ''reinitialize_distributed''), 1) \<and>
   reinitialize_distributed (picky_worker [''reinitialize_distributed'']) ready_executor
       shutdown_request
     = (Inl (RaisedException ''reinitialize_distributed''),
        \<lparr>driver_worker =
           Some \<lparr>worker_state = 1,
                 rpc_log = [RpcCall (MethodName ''reinitialize_distributed'')
                              [ReconfigureArg shutdown_request] []]\<rparr>,
         lifecycle = READY\<rparr>)"
proof -
  have dw: "driver_worker ready_executor = Some (WorkerWrapperBase 0)"
    by (simp add: ready_executor_def)
  have run: "echo_worker (worker_state (WorkerWrapperBase 0 :: (nat, unit, unit) worker_handle))
               (RpcCall (MethodName ''reinitialize_distributed'')
                  [ReconfigureArg shutdown_request] [])
             = (Inr ''reinitialize_distributed'', 1)"
    by (simp add: echo_worker_def WorkerWrapperBase_def)
  have bad: "picky_worker [''reinitialize_distributed'']
               (worker_state (WorkerWrapperBase 0 :: (nat, unit, unit) worker_handle))
               (RpcCall (MethodName ''reinitialize_distributed'')
                  [ReconfigureArg shutdown_request] [])
             = (Inl (RaisedException ''reinitialize_distributed''), 1)"
    by (simp add: picky_worker_def WorkerWrapperBase_def)
  have rank: "new_data_parallel_rank shutdown_request = SHUTDOWN_CURRENT_RANK"
    by (simp add: shutdown_request_def)
  obtain self' where
    r: "reinitialize_distributed echo_worker ready_executor shutdown_request = (Inr (), self')"
    and l: "lifecycle self' = SHUTDOWN"
    and c: "\<forall>meth tmo args kwargs.
              fst (collective_rpc echo_worker self' meth tmo args kwargs) =
                (case fst (echo_worker 1
                        (RpcCall meth args (case kwargs of None \<Rightarrow> [] | Some k \<Rightarrow> k))) of
                   Inl e \<Rightarrow> Inl e
                 | Inr answer \<Rightarrow> Inr [answer])"
    using reinitialize_shutdown_then_rpc
        [where run = echo_worker and req = shutdown_request, OF dw, THEN conjunct1,
         rule_format, OF conjI, OF run rank]
    by blast
  have "fst (collective_rpc echo_worker self' (MethodName ''execute_model'') None [] None)
          = Inr [''execute_model'']"
    using c by (simp add: echo_worker_def)
  then have p1: "\<exists>self'. reinitialize_distributed echo_worker ready_executor shutdown_request
              = (Inr (), self') \<and>
            lifecycle self' = SHUTDOWN \<and>
            fst (collective_rpc echo_worker self' (MethodName ''execute_model'') None [] None)
              = Inr [''execute_model'']"
    using r l by blast
  have p2: "reinitialize_distributed (picky_worker [''reinitialize_distributed''])
       ready_executor shutdown_request
     = (Inl (RaisedException ''reinitialize_distributed''),
        \<lparr>driver_worker =
           Some \<lparr>worker_state = 1,
                 rpc_log = [RpcCall (MethodName ''reinitialize_distributed'')
                              [ReconfigureArg shutdown_request] []]\<rparr>,
         lifecycle = READY\<rparr>)"
    using reinitialize_shutdown_then_rpc
        [where run = "picky_worker [''reinitialize_distributed'']" and req = shutdown_request,
         OF dw, THEN conjunct2, THEN conjunct1, rule_format, OF bad]
    by (simp add: ready_executor_def WorkerWrapperBase_def)
  show ?thesis
    using dw run bad rank p1 p2 by (simp add: WorkerWrapperBase_def)
qed

text \<open>
  C9 as stated fails: after the shutdown request the executor is in SHUTDOWN, and a
  \<open>collective_rpc\<close> on it returns the worker's answer instead of failing.
\<close>

theorem collective_rpc_after_shutdown:
  "lifecycle (snd (reinitialize_distributed echo_worker ready_executor shutdown_request))
     = SHUTDOWN \<and>
   fst (collective_rpc echo_worker
          (snd (reinitialize_distributed echo_worker ready_executor shutdown_request))
          (MethodName ''execute_model'') None [] None)
     = Inr [''execute_model'']"
  by (simp add: reinitialize_distributed_def collective_rpc_def run_method_def shutdown_def
      echo_worker_def ready_executor_def WorkerWrapperBase_def shutdown_request_def)

end
